theory Spec2Isabelle
  imports Complex_Main
begin

section \<open>Streamlit's memoization layer (lib/streamlit/caching.py)\<close>

text \<open>
  The development embeds the function-level cache of \<^verbatim>\<open>caching.py\<close>: the registry of
  per-function memory caches (\<^verbatim>\<open>_MemCaches\<close>), the thread-local counters and their
  context managers, the memory and disk tiers, the read and write protocol over both, and
  the decorator \<^verbatim>\<open>cache\<close> with its \<^verbatim>\<open>wrapped_func\<close>.

  Python objects are mutable and the cache stores references to them, so user values live
  in an explicit store: a cache entry holds a reference, and mutating the object behind it
  is an update of the store. The per-function \<^verbatim>\<open>TTLCache\<close> objects live in a store of
  their own, because \<^verbatim>\<open>get_or_create_cached_value\<close> keeps a reference to the cache while
  the user's function runs. One thread is modelled; exceptions are values of the type
  \<open>exn\<close>, and a computation is a function from the state to a result and the new state.
  A leading underscore of a Python name is dropped.
\<close>

subsection \<open>Numbers, parameters, exceptions\<close>

text \<open>
  \<^verbatim>\<open>max_entries\<close> and \<^verbatim>\<open>ttl\<close> are Python ints or floats: a finite number, one of the two
  infinities, or NaN; \<^verbatim>\<open>isinstance(x, (int, float))\<close> holds for all of them. Finite numbers
  are reals here and compare as reals (\<^verbatim>\<open>5 == 5.0\<close>). The three operations the code and
  the memory tier use are Python's \<^verbatim>\<open><\<close>, \<^verbatim>\<open>+\<close> and \<^verbatim>\<open>==\<close>: every comparison with NaN
  is false, also \<^verbatim>\<open>nan == nan\<close>, and the sum of the two infinities is NaN.
\<close>

datatype number = Finite real | Infinity | NegInfinity | NaN

fun num_less :: "number \<Rightarrow> number \<Rightarrow> bool" where
  "num_less NaN b = False"
| "num_less a NaN = False"
| "num_less (Finite a) (Finite b) = (a < b)"
| "num_less (Finite a) Infinity = True"
| "num_less (Finite a) NegInfinity = False"
| "num_less Infinity b = False"
| "num_less NegInfinity NegInfinity = False"
| "num_less NegInfinity b = True"

fun num_add :: "number \<Rightarrow> number \<Rightarrow> number" where
  "num_add NaN b = NaN"
| "num_add a NaN = NaN"
| "num_add (Finite a) (Finite b) = Finite (a + b)"
| "num_add (Finite a) Infinity = Infinity"
| "num_add (Finite a) NegInfinity = NegInfinity"
| "num_add Infinity NegInfinity = NaN"
| "num_add Infinity b = Infinity"
| "num_add NegInfinity Infinity = NaN"
| "num_add NegInfinity b = NegInfinity"

definition num_eq :: "number \<Rightarrow> number \<Rightarrow> bool" where
  "num_eq a b = (a \<noteq> NaN \<and> b \<noteq> NaN \<and> a = b)"

text \<open>
  A decorator argument as the caller passes it: \<^verbatim>\<open>None\<close>, a number, or an object of
  another type (named by its \<^verbatim>\<open>repr\<close>), for which
  \<^verbatim>\<open>isinstance(x, (int, float))\<close> is false.
\<close>

datatype param = PyNone | Numeric number | NonNumeric string

type_synonym ref = nat

datatype exn =
    RuntimeError string
  | CacheError string
  | CacheKeyNotFoundError string
  | CachedObjectWasMutatedError ref
  | UtilError string
  | StructError string
  | OSError string
  | ValueError string
  | KeyError string
  | AssertionError
  | Exception string
  | OtherError string

subsection \<open>The memory tier: \<^verbatim>\<open>CacheEntry\<close> and \<^verbatim>\<open>cachetools.TTLCache\<close>\<close>

text \<open>
  \<^verbatim>\<open>CacheEntry = namedtuple("CacheEntry", ["value", "hash"])\<close>: a reference to the cached
  object and the digest taken when it was written, or \<^verbatim>\<open>None\<close>.
\<close>

record 'd CacheEntry =
  entry_value :: ref
  entry_hash :: "'d option"

text \<open>
  Modelled from the spec: \<^verbatim>\<open>TTLCache\<close> is imported from the library cachetools and is not
  under src/. The spec's memory tier is a mapping from call fingerprints to entries,
  bounded by a maximum entry count (the oldest entry is discarded on overflow) and by a
  time-to-live per entry (an entry older than the ttl is treated as absent), the check
  being made at read time. The record keeps \<^verbatim>\<open>maxsize\<close> and \<^verbatim>\<open>ttl\<close> as the constructor got
  them, each key's expiry time and entry, and the keys from oldest to newest. Every
  operation reads the timer; the reading is passed in as \<open>now\<close>. As in the library, a
  write first drops the expired entries, raises \<^verbatim>\<open>ValueError\<close> when a single entry exceeds
  \<^verbatim>\<open>maxsize\<close>, discards oldest entries while the cache is full and the key is new, and
  stamps the entry with \<open>now + ttl\<close>.
\<close>

record 'd TTLCache =
  cache_maxsize :: number
  cache_ttl :: number
  cache_data :: "string \<rightharpoonup> (number \<times> 'd CacheEntry)"
  cache_order :: "string list"

definition new_TTLCache :: "number \<Rightarrow> number \<Rightarrow> 'd TTLCache" where
  "new_TTLCache m t =
     \<lparr>cache_maxsize = m, cache_ttl = t, cache_data = Map.empty, cache_order = []\<rparr>"

definition expired :: "number \<Rightarrow> real \<Rightarrow> bool" where
  "expired e now = num_less e (Finite now)"

definition ttl_contains :: "'d TTLCache \<Rightarrow> real \<Rightarrow> string \<Rightarrow> bool" where
  "ttl_contains c now key =
     (case cache_data c key of None \<Rightarrow> False | Some (e, x) \<Rightarrow> \<not> expired e now)"

definition ttl_getitem :: "'d TTLCache \<Rightarrow> real \<Rightarrow> string \<Rightarrow> 'd CacheEntry option" where
  "ttl_getitem c now key =
     (case cache_data c key of
        None \<Rightarrow> None
      | Some (e, x) \<Rightarrow> if expired e now then None else Some x)"

definition ttl_expire :: "'d TTLCache \<Rightarrow> real \<Rightarrow> 'd TTLCache" where
  "ttl_expire c now =
     (let d = (\<lambda>k. case cache_data c k of
                      None \<Rightarrow> None
                    | Some (e, x) \<Rightarrow> if expired e now then None else Some (e, x))
      in c\<lparr>cache_data := d, cache_order := filter (\<lambda>k. d k \<noteq> None) (cache_order c)\<rparr>)"

fun popitems :: "number \<Rightarrow> string list \<Rightarrow> (string \<rightharpoonup> 'x) \<Rightarrow> string list \<times> (string \<rightharpoonup> 'x)" where
  "popitems m [] d = ([], d)"
| "popitems m (k # ks) d =
     (if num_less m (Finite (real (length (k # ks)) + 1))
      then popitems m ks (d(k := None))
      else (k # ks, d))"

definition ttl_setitem ::
  "'d TTLCache \<Rightarrow> real \<Rightarrow> string \<Rightarrow> 'd CacheEntry \<Rightarrow> (exn + unit) \<times> 'd TTLCache" where
  "ttl_setitem c now key x =
     (let c1 = ttl_expire c now in
      if num_less (cache_maxsize c1) (Finite 1)
      then (Inl (ValueError ''value too large''), c1)
      else
        let (ks, d) =
              (if cache_data c1 key \<noteq> None
               then (filter (\<lambda>k. k \<noteq> key) (cache_order c1), cache_data c1)
               else popitems (cache_maxsize c1) (cache_order c1) (cache_data c1))
        in (Inr (),
            c1\<lparr>cache_data := d(key \<mapsto> (num_add (Finite now) (cache_ttl c1), x)),
               cache_order := ks @ [key]\<rparr>))"

subsection \<open>The program state\<close>

text \<open>
  Modelled from the spec: the file helpers of \<^verbatim>\<open>streamlit.file_util\<close> and \<^verbatim>\<open>pickle\<close> are not
  under src/. The disk tier is one file per fingerprint under a cache directory, holding a
  serialization of the value only. A file is a complete pickle of a value, a zero-byte
  file, or a truncated one.
\<close>

datatype 'v cache_file = Pickled 'v | ZeroByte | Truncated

text \<open>
  The state: the registry \<^verbatim>\<open>_mem_caches._function_caches\<close> (cache key to the reference of
  a \<^verbatim>\<open>TTLCache\<close>), the \<^verbatim>\<open>TTLCache\<close> objects, the user's objects, the next free reference,
  the files of the cache directory by path, the two counters of \<^verbatim>\<open>_cache_info\<close>, the
  messages passed to \<^verbatim>\<open>st.warning\<close>, the reading of \<^verbatim>\<open>TTLCACHE_TIMER\<close>, and the option
  \<^verbatim>\<open>client.caching\<close>. Time passes by an update of \<open>clock\<close>, between the operations
  of the cache or inside the user's function.
\<close>

record ('v, 'd) state =
  function_caches :: "string \<rightharpoonup> ref"
  tiers :: "ref \<Rightarrow> 'd TTLCache"
  objects :: "ref \<Rightarrow> 'v"
  next_ref :: ref
  files :: "string \<rightharpoonup> 'v cache_file"
  within_cached_func :: int
  suppress_st_function_warning :: int
  warnings :: "string list"
  clock :: real
  client_caching :: bool

subsection \<open>\<^verbatim>\<open>_MemCaches\<close>\<close>

text \<open>
  \<^verbatim>\<open>if x is None: x = math.inf\<close>, the first step of \<^verbatim>\<open>get_cache\<close> for both arguments.
\<close>

definition none_to_inf :: "param \<Rightarrow> param" where
  "none_to_inf p = (if p = PyNone then Numeric Infinity else p)"

definition get_cache ::
  "string \<Rightarrow> param \<Rightarrow> param \<Rightarrow> ('v, 'd) state \<Rightarrow> (exn + ref) \<times> ('v, 'd) state" where
  "get_cache key max_entries0 ttl0 s =
     (let max_entries1 = none_to_inf max_entries0;
          ttl1 = none_to_inf ttl0
      in case max_entries1 of
           Numeric m \<Rightarrow>
             (case ttl1 of
                Numeric t \<Rightarrow>
                  (let create =
                         (Inr (next_ref s),
                          s\<lparr>function_caches := (function_caches s)(key \<mapsto> next_ref s),
                            tiers := (tiers s)(next_ref s := new_TTLCache m t),
                            next_ref := next_ref s + 1\<rparr>)
                   in case function_caches s key of
                        None \<Rightarrow> create
                      | Some mem_cache \<Rightarrow>
                          if num_eq (cache_ttl (tiers s mem_cache)) t
                             \<and> num_eq (cache_maxsize (tiers s mem_cache)) m
                          then (Inr mem_cache, s)
                          else create)
              | _ \<Rightarrow> (Inl (RuntimeError ''ttl must be a float''), s))
         | _ \<Rightarrow> (Inl (RuntimeError ''max_entries must be an int''), s))"

definition clear :: "('v, 'd) state \<Rightarrow> ('v, 'd) state" where
  "clear s = s\<lparr>function_caches := Map.empty\<rparr>"

definition clear_mem_cache :: "('v, 'd) state \<Rightarrow> ('v, 'd) state" where
  "clear_mem_cache s = clear s"

subsection \<open>The thread-local counters and their context managers\<close>

text \<open>
  \<^verbatim>\<open>ThreadLocalCacheInfo.__init__\<close> sets both counters of a new thread to 0.
\<close>

definition ThreadLocalCacheInfo :: "('v, 'd) state \<Rightarrow> ('v, 'd) state" where
  "ThreadLocalCacheInfo s = s\<lparr>within_cached_func := 0, suppress_st_function_warning := 0\<rparr>"

text \<open>
  A context manager takes the body of its \<^verbatim>\<open>with\<close> block as a computation. The
  \<^verbatim>\<open>finally\<close> clause runs whether the body returns or raises; the \<^verbatim>\<open>assert\<close> of
  \<^verbatim>\<open>suppress_cached_st_function_warning\<close> replaces the outcome when it fails.
\<close>

definition calling_cached_function ::
  "(('v, 'd) state \<Rightarrow> (exn + 'r) \<times> ('v, 'd) state) \<Rightarrow> ('v, 'd) state
   \<Rightarrow> (exn + 'r) \<times> ('v, 'd) state" where
  "calling_cached_function body s =
     (let (r, s1) = body (s\<lparr>within_cached_func := within_cached_func s + 1\<rparr>)
      in (r, s1\<lparr>within_cached_func := within_cached_func s1 - 1\<rparr>))"

definition suppress_cached_st_function_warning ::
  "(('v, 'd) state \<Rightarrow> (exn + 'r) \<times> ('v, 'd) state) \<Rightarrow> ('v, 'd) state
   \<Rightarrow> (exn + 'r) \<times> ('v, 'd) state" where
  "suppress_cached_st_function_warning body s =
     (let (r, s1) =
            body (s\<lparr>suppress_st_function_warning := suppress_st_function_warning s + 1\<rparr>);
          s2 = s1\<lparr>suppress_st_function_warning := suppress_st_function_warning s1 - 1\<rparr>
      in if suppress_st_function_warning s2 \<ge> 0 then (r, s2) else (Inl AssertionError, s2))"

text \<open>
  \<^verbatim>\<open>st.warning\<close> and \<^verbatim>\<open>dg.warning\<close> belong to the host application; here they record
  their message. The two message texts are shortened to their first line.
\<close>

definition st_warning :: "string \<Rightarrow> ('v, 'd) state \<Rightarrow> (exn + unit) \<times> ('v, 'd) state" where
  "st_warning msg s = (Inr (), s\<lparr>warnings := warnings s @ [msg]\<rparr>)"

definition CACHED_ST_FUNCTION_WARNING :: string where
  "CACHED_ST_FUNCTION_WARNING =
     ''Your script writes to your Streamlit app from within a cached function.''"

definition show_cached_st_function_warning ::
  "('v, 'd) state \<Rightarrow> (exn + unit) \<times> ('v, 'd) state" where
  "show_cached_st_function_warning s =
     suppress_cached_st_function_warning (st_warning CACHED_ST_FUNCTION_WARNING) s"

definition maybe_show_cached_st_function_warning ::
  "('v, 'd) state \<Rightarrow> (exn + unit) \<times> ('v, 'd) state" where
  "maybe_show_cached_st_function_warning s =
     (if within_cached_func s > 0 \<and> suppress_st_function_warning s \<le> 0
      then show_cached_st_function_warning s
      else (Inr (), s))"

definition get_mutated_output_error_message :: string where
  "get_mutated_output_error_message = ''**WARNING: Cached Object Mutated**''"

subsection \<open>Collaborators that are not in the source\<close>

text \<open>
  The hashing of \<^verbatim>\<open>streamlit.hashing\<close> (\<^verbatim>\<open>get_hash\<close>, \<^verbatim>\<open>CodeHasher\<close>) is a parameter:
  \<open>get_hash\<close> maps the hash overrides and an object's content to a digest; \<open>func_key\<close> is
  the digest of the decorated function's module, qualified name and code, and
  \<open>value_key\<close> the digest of the call's arguments and the function's code. A digest is
  never \<^verbatim>\<open>None\<close>. The environment's faults are parameters too: the exception raised by
  \<^verbatim>\<open>pickle.dump\<close> for a value, if any, and whether opening or removing a path is denied.
\<close>

record ('a, 'v, 'd, 'hf) env =
  get_hash :: "'hf \<Rightarrow> 'v \<Rightarrow> 'd"
  func_key :: "'hf \<Rightarrow> string"
  value_key :: "'hf \<Rightarrow> 'a \<Rightarrow> string"
  pickle_dump :: "'v \<Rightarrow> exn option"
  open_denied :: "string \<Rightarrow> bool"
  remove_denied :: "string \<Rightarrow> bool"

definition cache_path :: "string \<Rightarrow> string" where
  "cache_path key = ''cache/'' @ key @ ''.pickle''"

text \<open>
  Modelled from the spec: \<^verbatim>\<open>file_util.streamlit_read\<close> with \<^verbatim>\<open>pickle.load\<close> in its body, and
  \<^verbatim>\<open>file_util.streamlit_write\<close> with \<^verbatim>\<open>pickle.dump\<close> in its body, are not under src/. A
  read of a missing file raises an \<^verbatim>\<open>OSError\<close>, a read of a zero-byte file raises
  \<^verbatim>\<open>util.Error\<close>, and a truncated file fails to unpickle. A write opens the file, which
  creates it empty, and dumps the value; \<^verbatim>\<open>streamlit_write\<close> turns an \<^verbatim>\<open>OSError\<close> into
  \<^verbatim>\<open>util.Error\<close> and lets every other exception pass. \<^verbatim>\<open>os.remove\<close> raises an \<^verbatim>\<open>OSError\<close>
  when the file is missing or may not be removed.
\<close>

definition streamlit_read_load :: "string \<Rightarrow> (string \<rightharpoonup> 'v cache_file) \<Rightarrow> exn + 'v" where
  "streamlit_read_load path fs =
     (case fs path of
        None \<Rightarrow> Inl (OSError ''No such file or directory'')
      | Some ZeroByte \<Rightarrow> Inl (UtilError (''Read zero byte file: '' @ path))
      | Some Truncated \<Rightarrow> Inl (OtherError ''UnpicklingError'')
      | Some (Pickled v) \<Rightarrow> Inr v)"

definition streamlit_write_dump ::
  "('a, 'v, 'd, 'hf) env \<Rightarrow> string \<Rightarrow> 'v \<Rightarrow> (string \<rightharpoonup> 'v cache_file)
   \<Rightarrow> (exn + unit) \<times> (string \<rightharpoonup> 'v cache_file)" where
  "streamlit_write_dump env path v fs =
     (if open_denied env path
      then (Inl (UtilError (''Unable to write file: '' @ path)), fs)
      else case pickle_dump env v of
             None \<Rightarrow> (Inr (), fs(path \<mapsto> Pickled v))
           | Some (OSError m) \<Rightarrow>
               (Inl (UtilError (''Unable to write file: '' @ path)), fs(path \<mapsto> ZeroByte))
           | Some e \<Rightarrow> (Inl e, fs(path \<mapsto> ZeroByte)))"

definition os_remove ::
  "('a, 'v, 'd, 'hf) env \<Rightarrow> string \<Rightarrow> (string \<rightharpoonup> 'v cache_file)
   \<Rightarrow> (exn + unit) \<times> (string \<rightharpoonup> 'v cache_file)" where
  "os_remove env path fs =
     (if fs path = None then (Inl (OSError ''No such file or directory''), fs)
      else if remove_denied env path then (Inl (OSError ''Permission denied''), fs)
      else (Inr (), fs(path := None)))"

subsection \<open>Reading and writing the two tiers\<close>

definition read_from_mem_cache ::
  "('a, 'v, 'd, 'hf) env \<Rightarrow> ref \<Rightarrow> string \<Rightarrow> bool \<Rightarrow> 'hf \<Rightarrow> ('v, 'd) state
   \<Rightarrow> (exn + ref) \<times> ('v, 'd) state" where
  "read_from_mem_cache env mem_cache key allow_output_mutation0 hash_funcs0 s =
     (if ttl_contains (tiers s mem_cache) (clock s) key
      then
        (case ttl_getitem (tiers s mem_cache) (clock s) key of
           None \<Rightarrow> (Inl (KeyError key), s)
         | Some entry \<Rightarrow>
             if allow_output_mutation0
                \<or> Some (get_hash env hash_funcs0 (objects s (entry_value entry)))
                   = entry_hash entry
             then (Inr (entry_value entry), s)
             else (Inl (CachedObjectWasMutatedError (entry_value entry)), s))
      else (Inl (CacheKeyNotFoundError ''Key not found in mem cache''), s))"

definition write_to_mem_cache ::
  "('a, 'v, 'd, 'hf) env \<Rightarrow> ref \<Rightarrow> string \<Rightarrow> ref \<Rightarrow> bool \<Rightarrow> 'hf \<Rightarrow> ('v, 'd) state
   \<Rightarrow> (exn + unit) \<times> ('v, 'd) state" where
  "write_to_mem_cache env mem_cache key v allow_output_mutation0 hash_funcs0 s =
     (let h = (if allow_output_mutation0 then None
               else Some (get_hash env hash_funcs0 (objects s v)));
          (r, c) = ttl_setitem (tiers s mem_cache) (clock s) key
                     \<lparr>entry_value = v, entry_hash = h\<rparr>
      in (r, s\<lparr>tiers := (tiers s)(mem_cache := c)\<rparr>))"

text \<open>
  \<^verbatim>\<open>pickle.load\<close> builds a new object, so a value read from disk gets a fresh reference.
\<close>

definition read_from_disk_cache ::
  "string \<Rightarrow> ('v, 'd) state \<Rightarrow> (exn + ref) \<times> ('v, 'd) state" where
  "read_from_disk_cache key s =
     (case streamlit_read_load (cache_path key) (files s) of
        Inr v \<Rightarrow>
          (Inr (next_ref s),
           s\<lparr>objects := (objects s)(next_ref s := v), next_ref := next_ref s + 1\<rparr>)
      | Inl (UtilError m) \<Rightarrow> (Inl (CacheError (''Unable to read from cache: '' @ m)), s)
      | Inl (OSError m) \<Rightarrow> (Inl (CacheKeyNotFoundError ''Key not found in disk cache''), s)
      | Inl e \<Rightarrow> (Inl e, s))"

definition write_to_disk_cache ::
  "('a, 'v, 'd, 'hf) env \<Rightarrow> string \<Rightarrow> ref \<Rightarrow> ('v, 'd) state
   \<Rightarrow> (exn + unit) \<times> ('v, 'd) state" where
  "write_to_disk_cache env key v s =
     (let path = cache_path key;
          cleanup = (\<lambda>m fs.
            case os_remove env path fs of
              (Inr u, fs1) \<Rightarrow>
                (Inl (CacheError (''Unable to write to cache: '' @ m)), s\<lparr>files := fs1\<rparr>)
            | (Inl (OSError x), fs1) \<Rightarrow>
                (Inl (CacheError (''Unable to write to cache: '' @ m)), s\<lparr>files := fs1\<rparr>)
            | (Inl e1, fs1) \<Rightarrow> (Inl e1, s\<lparr>files := fs1\<rparr>))
      in case streamlit_write_dump env path (objects s v) (files s) of
           (Inr u, fs) \<Rightarrow> (Inr (), s\<lparr>files := fs\<rparr>)
         | (Inl (UtilError m), fs) \<Rightarrow> cleanup m fs
         | (Inl (StructError m), fs) \<Rightarrow> cleanup m fs
         | (Inl e, fs) \<Rightarrow> (Inl e, s\<lparr>files := fs\<rparr>))"

definition read_from_cache ::
  "('a, 'v, 'd, 'hf) env \<Rightarrow> ref \<Rightarrow> string \<Rightarrow> bool \<Rightarrow> bool \<Rightarrow> 'hf \<Rightarrow> ('v, 'd) state
   \<Rightarrow> (exn + ref) \<times> ('v, 'd) state" where
  "read_from_cache env mem_cache key persisted allow_output_mutation0 hash_funcs0 s =
     (case read_from_mem_cache env mem_cache key allow_output_mutation0 hash_funcs0 s of
        (Inr v, s1) \<Rightarrow> (Inr v, s1)
      | (Inl (CachedObjectWasMutatedError cached_value), s1) \<Rightarrow>
          (Inr cached_value, snd (st_warning get_mutated_output_error_message s1))
      | (Inl (CacheKeyNotFoundError m), s1) \<Rightarrow>
          if persisted
          then
            (case read_from_disk_cache key s1 of
               (Inl e, s2) \<Rightarrow> (Inl e, s2)
             | (Inr v, s2) \<Rightarrow>
                 (case write_to_mem_cache env mem_cache key v allow_output_mutation0
                         hash_funcs0 s2 of
                    (Inl e, s3) \<Rightarrow> (Inl e, s3)
                  | (Inr u, s3) \<Rightarrow> (Inr v, s3)))
          else (Inl (CacheKeyNotFoundError m), s1)
      | (Inl e, s1) \<Rightarrow> (Inl e, s1))"

definition write_to_cache ::
  "('a, 'v, 'd, 'hf) env \<Rightarrow> ref \<Rightarrow> string \<Rightarrow> ref \<Rightarrow> bool \<Rightarrow> bool \<Rightarrow> 'hf \<Rightarrow> ('v, 'd) state
   \<Rightarrow> (exn + unit) \<times> ('v, 'd) state" where
  "write_to_cache env mem_cache key v persist0 allow_output_mutation0 hash_funcs0 s =
     (case write_to_mem_cache env mem_cache key v allow_output_mutation0 hash_funcs0 s of
        (Inl e, s1) \<Rightarrow> (Inl e, s1)
      | (Inr u, s1) \<Rightarrow> if persist0 then write_to_disk_cache env key v s1 else (Inr (), s1))"

subsection \<open>The decorator\<close>

record 'hf cache_args =
  persist :: bool
  allow_output_mutation :: bool
  show_spinner :: bool
  suppress_st_warning :: bool
  hash_funcs :: 'hf
  ignore_hash :: bool
  max_entries :: param
  ttl :: param

text \<open>
  The decorated function is a computation from its arguments to a reference or an
  exception; it may change any part of the state. \<^verbatim>\<open>st.spinner\<close> only shows a message
  while its body runs, so both branches on \<^verbatim>\<open>show_spinner\<close> run the same computation.
\<close>

definition get_or_create_cached_value ::
  "('a, 'v, 'd, 'hf) env \<Rightarrow> 'hf cache_args \<Rightarrow> string
   \<Rightarrow> ('a \<Rightarrow> ('v, 'd) state \<Rightarrow> (exn + ref) \<times> ('v, 'd) state) \<Rightarrow> 'a \<Rightarrow> ('v, 'd) state
   \<Rightarrow> (exn + ref) \<times> ('v, 'd) state" where
  "get_or_create_cached_value env p cache_key func args s =
     (case get_cache cache_key (max_entries p) (ttl p) s of
        (Inl e, s1) \<Rightarrow> (Inl e, s1)
      | (Inr mem_cache, s1) \<Rightarrow>
          (let key = value_key env (hash_funcs p) args
           in case read_from_cache env mem_cache key (persist p) (allow_output_mutation p)
                     (hash_funcs p) s1 of
                (Inr return_value, s2) \<Rightarrow> (Inr return_value, s2)
              | (Inl (CacheKeyNotFoundError m), s2) \<Rightarrow>
                  (case calling_cached_function
                          (if suppress_st_warning p
                           then suppress_cached_st_function_warning (func args)
                           else func args) s2 of
                     (Inl e, s3) \<Rightarrow> (Inl e, s3)
                   | (Inr return_value, s3) \<Rightarrow>
                       (case write_to_cache env mem_cache key return_value (persist p)
                               (allow_output_mutation p) (hash_funcs p) s3 of
                          (Inl e, s4) \<Rightarrow> (Inl e, s4)
                        | (Inr u, s4) \<Rightarrow> (Inr return_value, s4)))
              | (Inl e, s2) \<Rightarrow> (Inl e, s2)))"

definition wrapped_func ::
  "('a, 'v, 'd, 'hf) env \<Rightarrow> 'hf cache_args \<Rightarrow> string
   \<Rightarrow> ('a \<Rightarrow> ('v, 'd) state \<Rightarrow> (exn + ref) \<times> ('v, 'd) state) \<Rightarrow> 'a \<Rightarrow> ('v, 'd) state
   \<Rightarrow> (exn + ref) \<times> ('v, 'd) state" where
  "wrapped_func env p cache_key func args s =
     (if \<not> client_caching s then func args s
      else if show_spinner p
      then get_or_create_cached_value env p cache_key func args s
      else get_or_create_cached_value env p cache_key func args s)"

text \<open>
  \<^verbatim>\<open>cache\<close> itself: it refuses the deprecated \<^verbatim>\<open>ignore_hash\<close>, computes the cache key of
  the function, and returns the wrapper. Nothing else happens at decoration time. Called
  without a function it returns itself with the other arguments fixed, which is the
  partial application of this definition.
\<close>

definition cache ::
  "('a, 'v, 'd, 'hf) env \<Rightarrow> 'hf cache_args
   \<Rightarrow> ('a \<Rightarrow> ('v, 'd) state \<Rightarrow> (exn + ref) \<times> ('v, 'd) state)
   \<Rightarrow> exn + ('a \<Rightarrow> ('v, 'd) state \<Rightarrow> (exn + ref) \<times> ('v, 'd) state)" where
  "cache env p func =
     (if ignore_hash p
      then Inl (Exception ''The ignore_hash argument has been renamed to allow_output_mutation.'')
      else Inr (wrapped_func env p (func_key env (hash_funcs p)) func))"

subsection \<open>A concrete instance\<close>

text \<open>
  For the closed theorems below: objects hold integers, a digest is the content itself,
  the environment never fails, and the state is that of a fresh process at time 0 with
  caching enabled. Object 0 is a counter that the function \<open>double\<close> bumps each time its
  body runs; \<open>double\<close> returns a new object holding twice its argument. \<open>default_args\<close>
  are the defaults of \<^verbatim>\<open>cache\<close>.
\<close>

definition ex_env :: "(int, int, int, unit) env" where
  "ex_env =
     \<lparr>get_hash = (\<lambda>hf v. v),
      func_key = (\<lambda>hf. ''double''),
      value_key = (\<lambda>hf a. if a = 3 then ''three'' else ''other''),
      pickle_dump = (\<lambda>v. None),
      open_denied = (\<lambda>path. False),
      remove_denied = (\<lambda>path. False)\<rparr>"

definition ex_state :: "(int, int) state" where
  "ex_state =
     \<lparr>function_caches = Map.empty,
      tiers = (\<lambda>r. new_TTLCache Infinity Infinity),
      objects = (\<lambda>r. 0),
      next_ref = 1,
      files = Map.empty,
      within_cached_func = 0,
      suppress_st_function_warning = 0,
      warnings = [],
      clock = 0,
      client_caching = True\<rparr>"

definition double :: "int \<Rightarrow> (int, int) state \<Rightarrow> (exn + ref) \<times> (int, int) state" where
  "double x s =
     (Inr (next_ref s),
      s\<lparr>objects := (objects s)(0 := objects s 0 + 1, next_ref s := 2 * x),
        next_ref := next_ref s + 1\<rparr>)"

definition default_args :: "unit cache_args" where
  "default_args =
     \<lparr>persist = False, allow_output_mutation = False, show_spinner = True,
      suppress_st_warning = False, hash_funcs = (), ignore_hash = False,
      max_entries = PyNone, ttl = PyNone\<rparr>"

subsection \<open>A second instance, with a table of hash overrides\<close>

text \<open>
  For the closed theorems about \<^verbatim>\<open>hash_funcs\<close>: the table is \<open>False\<close> for no override and
  \<open>True\<close> for a table that overrides the hash of the returned objects by a constant, as
  \<^verbatim>\<open>hash_funcs={MongoClient: id}\<close> does for a function from a URL to a client. In
  \<open>tab_env\<close> the table changes the digest of a returned object only; in \<open>tab_env_keyed\<close>
  it also changes the digest of the function, as a table with an override for a type that
  the function's module name or code is made of does.
\<close>

definition tab_env :: "(int, int, int, bool) env" where
  "tab_env =
     \<lparr>get_hash = (\<lambda>tab v. if tab then 0 else v),
      func_key = (\<lambda>tab. ''double''),
      value_key = (\<lambda>tab a. if a = 3 then ''three'' else ''other''),
      pickle_dump = (\<lambda>v. None),
      open_denied = (\<lambda>path. False),
      remove_denied = (\<lambda>path. False)\<rparr>"

definition tab_env_keyed :: "(int, int, int, bool) env" where
  "tab_env_keyed = tab_env\<lparr>func_key := (\<lambda>tab. if tab then ''double+'' else ''double'')\<rparr>"

definition tab_args :: "bool cache_args" where
  "tab_args =
     \<lparr>persist = False, allow_output_mutation = False, show_spinner = True,
      suppress_st_warning = False, hash_funcs = False, ignore_hash = False,
      max_entries = PyNone, ttl = PyNone\<rparr>"

text \<open>
  A function whose body calls the cached \<open>double\<close>: it doubles the object that the cached
  call returns.
\<close>

definition quadruple :: "int \<Rightarrow> (int, int) state \<Rightarrow> (exn + ref) \<times> (int, int) state" where
  "quadruple x s =
     (case wrapped_func ex_env default_args ''double'' double x s of
        (Inl e, s1) \<Rightarrow> (Inl e, s1)
      | (Inr r, s1) \<Rightarrow>
          (Inr (next_ref s1),
           s1\<lparr>objects := (objects s1)(next_ref s1 := 2 * objects s1 r),
              next_ref := next_ref s1 + 1\<rparr>))"

subsection \<open>A predicate for stating what a later call finds\<close>

text \<open>
  What \<^verbatim>\<open>get_cache\<close> and \<^verbatim>\<open>_read_from_mem_cache\<close> test at a call made at time \<open>t\<close>: a
  tier is registered for the function, its two bounds are equal (by \<^verbatim>\<open>==\<close>) to the
  decorator's, and it holds an entry for the call's key that has not expired.
\<close>

definition still_cached ::
  "('a, 'v, 'd, 'hf) env \<Rightarrow> 'hf cache_args \<Rightarrow> string \<Rightarrow> 'a \<Rightarrow> real \<Rightarrow> ('v, 'd) state \<Rightarrow> bool" where
  "still_cached env p cache_key args t s =
     (case function_caches s cache_key of
        None \<Rightarrow> False
      | Some mem_cache \<Rightarrow>
          (case (none_to_inf (max_entries p), none_to_inf (ttl p)) of
             (Numeric m, Numeric tt) \<Rightarrow>
               num_eq (cache_maxsize (tiers s mem_cache)) m
               \<and> num_eq (cache_ttl (tiers s mem_cache)) tt
               \<and> ttl_contains (tiers s mem_cache) t (value_key env (hash_funcs p) args)
           | _ \<Rightarrow> False))"

section \<open>Properties\<close>

lemmas model_defs =
  wrapped_func_def get_or_create_cached_value_def get_cache_def none_to_inf_def
  read_from_cache_def read_from_mem_cache_def write_to_cache_def write_to_mem_cache_def
  read_from_disk_cache_def write_to_disk_cache_def streamlit_read_load_def
  streamlit_write_dump_def os_remove_def cache_path_def st_warning_def
  calling_cached_function_def suppress_cached_st_function_warning_def
  ttl_contains_def ttl_getitem_def ttl_setitem_def ttl_expire_def expired_def
  new_TTLCache_def num_eq_def Let_def

lemmas ex_defs = ex_env_def ex_state_def double_def default_args_def

lemmas tab_defs = tab_env_def tab_env_keyed_def tab_args_def

subsection \<open>The memory tier\<close>


lemma ttl_setitem_result:
  assumes "\<not> num_less (cache_maxsize c) (Finite 1)"
  shows "fst (ttl_setitem c now key x) = Inr ()"
    and "cache_data (snd (ttl_setitem c now key x)) key
           = Some (num_add (Finite now) (cache_ttl c), x)"
    and "cache_maxsize (snd (ttl_setitem c now key x)) = cache_maxsize c"
    and "cache_ttl (snd (ttl_setitem c now key x)) = cache_ttl c"
  using assms
  by (simp_all add: ttl_setitem_def ttl_expire_def Let_def split: prod.splits)


subsection \<open>The registry\<close>

lemma get_cache_numeric:
  "none_to_inf me = Numeric m \<Longrightarrow> none_to_inf tt = Numeric t \<Longrightarrow>
   get_cache key me tt s =
     (case function_caches s key of
        Some r \<Rightarrow>
          if num_eq (cache_ttl (tiers s r)) t \<and> num_eq (cache_maxsize (tiers s r)) m
          then (Inr r, s)
          else (Inr (next_ref s),
                s\<lparr>function_caches := (function_caches s)(key \<mapsto> next_ref s),
                  tiers := (tiers s)(next_ref s := new_TTLCache m t),
                  next_ref := next_ref s + 1\<rparr>)
      | None \<Rightarrow>
          (Inr (next_ref s),
           s\<lparr>function_caches := (function_caches s)(key \<mapsto> next_ref s),
             tiers := (tiers s)(next_ref s := new_TTLCache m t),
             next_ref := next_ref s + 1\<rparr>))"
  by (auto simp add: get_cache_def none_to_inf_def Let_def split: option.splits if_splits)




subsection \<open>The thread-local counters\<close>

text \<open>
  C9. Both counters of a new thread are 0. Each context manager runs its body with its
  counter one higher and takes the one away again when the body ends, whether it returned
  or raised. For a body that leaves both counters as it found them, as a body built from
  these two context managers does, each scope ends with both counters at their value
  before entry, the outcome of the scope is the outcome of its body, and counters that
  were not negative before are not negative after.
\<close>

theorem counters_restored_on_every_exit:
  fixes body :: "('v, 'd) state \<Rightarrow> (exn + 'r) \<times> ('v, 'd) state"
  assumes "\<forall>s'. within_cached_func (snd (body s')) = within_cached_func s'"
      and "\<forall>s'. suppress_st_function_warning (snd (body s'))
                 = suppress_st_function_warning s'"
      and "0 \<le> within_cached_func s" and "0 \<le> suppress_st_function_warning s"
  shows
    "within_cached_func (ThreadLocalCacheInfo s0) = 0
     \<and> suppress_st_function_warning (ThreadLocalCacheInfo s0) = 0
     \<and> fst (calling_cached_function body s)
         = fst (body (s\<lparr>within_cached_func := within_cached_func s + 1\<rparr>))
     \<and> within_cached_func (snd (calling_cached_function body s)) = within_cached_func s
     \<and> suppress_st_function_warning (snd (calling_cached_function body s))
         = suppress_st_function_warning s
     \<and> fst (suppress_cached_st_function_warning body s)
         = fst (body (s\<lparr>suppress_st_function_warning := suppress_st_function_warning s + 1\<rparr>))
     \<and> suppress_st_function_warning (snd (suppress_cached_st_function_warning body s))
         = suppress_st_function_warning s
     \<and> within_cached_func (snd (suppress_cached_st_function_warning body s))
         = within_cached_func s
     \<and> 0 \<le> within_cached_func (snd (calling_cached_function body s))
     \<and> 0 \<le> suppress_st_function_warning (snd (suppress_cached_st_function_warning body s))"
proof -
  let ?sw = "s\<lparr>within_cached_func := within_cached_func s + 1\<rparr>"
  let ?ss = "s\<lparr>suppress_st_function_warning := suppress_st_function_warning s + 1\<rparr>"
  have w1: "within_cached_func (snd (body ?sw)) = within_cached_func s + 1"
    using assms(1) by simp
  have w2: "suppress_st_function_warning (snd (body ?sw)) = suppress_st_function_warning s"
    using assms(2) by simp
  have s1: "suppress_st_function_warning (snd (body ?ss)) = suppress_st_function_warning s + 1"
    using assms(2) by simp
  have s2: "within_cached_func (snd (body ?ss)) = within_cached_func s"
    using assms(1) by simp
  have c: "calling_cached_function body s
             = (fst (body ?sw),
                (snd (body ?sw))\<lparr>within_cached_func := within_cached_func (snd (body ?sw)) - 1\<rparr>)"
    by (simp add: calling_cached_function_def case_prod_beta)
  have d: "suppress_cached_st_function_warning body s
             = (fst (body ?ss),
                (snd (body ?ss))\<lparr>suppress_st_function_warning :=
                                   suppress_st_function_warning (snd (body ?ss)) - 1\<rparr>)"
    using s1 assms(4)
    by (simp add: suppress_cached_st_function_warning_def Let_def case_prod_beta)
  show ?thesis
    using assms(3) assms(4) w1 w2 s1 s2
    by (simp add: c d ThreadLocalCacheInfo_def)
qed

text \<open>The witness: a body that raises, entered from the fresh state.\<close>

theorem counters_restored_on_every_exit_witness:
  "(\<forall>s' :: (int, int) state.
      within_cached_func (snd ((Inl (OtherError ''boom'') :: exn + ref), s')) = within_cached_func s')
   \<and> 0 \<le> within_cached_func ex_state \<and> 0 \<le> suppress_st_function_warning ex_state
   \<and> fst (calling_cached_function (\<lambda>s'. ((Inl (OtherError ''boom'') :: exn + ref), s')) ex_state)
       = Inl (OtherError ''boom'')
   \<and> within_cached_func
         (snd (calling_cached_function (\<lambda>s'. ((Inl (OtherError ''boom'') :: exn + ref), s'))
                 ex_state)) = 0
   \<and> suppress_st_function_warning
         (snd (suppress_cached_st_function_warning
                 (\<lambda>s'. ((Inl (OtherError ''boom'') :: exn + ref), s')) ex_state)) = 0"
proof -
  let ?body = "\<lambda>s' :: (int, int) state. ((Inl (OtherError ''boom'') :: exn + ref), s')"
  have h1: "\<forall>s'. within_cached_func (snd (?body s')) = within_cached_func s'"
    and h2: "\<forall>s'. suppress_st_function_warning (snd (?body s'))
                    = suppress_st_function_warning s'"
    by simp_all
  have h3: "0 \<le> within_cached_func ex_state"
    and h4: "0 \<le> suppress_st_function_warning ex_state"
    by (simp_all add: ex_state_def)
  have z: "within_cached_func ex_state = 0" "suppress_st_function_warning ex_state = 0"
    by (simp_all add: ex_state_def)
  note r = counters_restored_on_every_exit [OF h1 h2 h3 h4, where ?s0.0 = ex_state]
  from r have "fst (calling_cached_function ?body ex_state)
                 = fst (?body (ex_state\<lparr>within_cached_func := within_cached_func ex_state + 1\<rparr>))"
    by blast
  moreover from r have "within_cached_func (snd (calling_cached_function ?body ex_state))
                 = within_cached_func ex_state"
    by blast
  moreover from r have "suppress_st_function_warning
                   (snd (suppress_cached_st_function_warning ?body ex_state))
                 = suppress_st_function_warning ex_state"
    by blast
  ultimately show ?thesis using h3 h4 z by simp
qed

subsection \<open>Reading and writing the tiers\<close>

lemma read_from_mem_cache_live:
  assumes "cache_data (tiers s mc) key = Some (e, x)" and "\<not> expired e (clock s)"
  shows "read_from_mem_cache env mc key aom hf s =
           (if aom \<or> Some (get_hash env hf (objects s (entry_value x))) = entry_hash x
            then (Inr (entry_value x), s)
            else (Inl (CachedObjectWasMutatedError (entry_value x)), s))"
  using assms by (simp add: read_from_mem_cache_def ttl_contains_def ttl_getitem_def)

lemma read_from_mem_cache_miss:
  assumes "\<not> ttl_contains (tiers s mc) (clock s) key"
  shows "read_from_mem_cache env mc key aom hf s =
           (Inl (CacheKeyNotFoundError ''Key not found in mem cache''), s)"
  using assms by (simp add: read_from_mem_cache_def)

lemma write_to_mem_cache_ok:
  assumes "\<not> num_less (cache_maxsize (tiers s mc)) (Finite 1)"
  shows "write_to_mem_cache env mc key v aom hf s =
           (Inr (),
            s\<lparr>tiers := (tiers s)(mc := snd (ttl_setitem (tiers s mc) (clock s) key
                 \<lparr>entry_value = v,
                  entry_hash = if aom then None else Some (get_hash env hf (objects s v))\<rparr>))\<rparr>)"
  using ttl_setitem_result(1) [OF assms]
  by (simp add: write_to_mem_cache_def Let_def case_prod_beta prod_eq_iff)

lemma write_to_mem_cache_Inr:
  assumes "write_to_mem_cache env mc key v aom hf s = (Inr u, s')"
  shows "\<not> num_less (cache_maxsize (tiers s mc)) (Finite 1)"
  using assms
  by (auto simp add: write_to_mem_cache_def ttl_setitem_def ttl_expire_def Let_def
      case_prod_beta split: if_splits)

text \<open>
  C5 (amended). A read of a live entry whose stored hash is \<^verbatim>\<open>None\<close> returns the value
  without raising exactly when \<^verbatim>\<open>allow_output_mutation\<close> is true at read time. With
  mutation detection on at read time the digest of the value is compared with \<^verbatim>\<open>None\<close>,
  which it never equals, and the read raises \<^verbatim>\<open>CachedObjectWasMutatedError\<close> carrying the
  value.
\<close>

theorem null_hash_read_follows_read_time_flag:
  assumes "cache_data (tiers s mc) key = Some (e, x)" and "\<not> expired e (clock s)"
      and "entry_hash x = None"
  shows "read_from_mem_cache env mc key aom hf s =
           (if aom then (Inr (entry_value x), s)
            else (Inl (CachedObjectWasMutatedError (entry_value x)), s))"
  using read_from_mem_cache_live [OF assms(1,2), of env aom hf] assms(3) by simp

theorem null_hash_read_counterexample:
  "entry_hash (the (ttl_getitem
       (tiers (snd (write_to_mem_cache ex_env 0 ''three'' 5 True () ex_state)) 0) 0 ''three''))
     = None
   \<and> fst (read_from_mem_cache ex_env 0 ''three'' False ()
            (snd (write_to_mem_cache ex_env 0 ''three'' 5 True () ex_state)))
     = Inl (CachedObjectWasMutatedError 5)"
  by (simp add: model_defs ex_defs)

theorem null_hash_read_follows_read_time_flag_witness:
  "cache_data (tiers (snd (write_to_mem_cache ex_env 0 ''three'' 5 True () ex_state)) 0) ''three''
     = Some (Infinity, \<lparr>entry_value = 5, entry_hash = None\<rparr>)
   \<and> \<not> expired Infinity (clock (snd (write_to_mem_cache ex_env 0 ''three'' 5 True () ex_state)))
   \<and> read_from_mem_cache ex_env 0 ''three'' True ()
        (snd (write_to_mem_cache ex_env 0 ''three'' 5 True () ex_state))
       = (Inr 5, snd (write_to_mem_cache ex_env 0 ''three'' 5 True () ex_state))
   \<and> read_from_mem_cache ex_env 0 ''three'' False ()
        (snd (write_to_mem_cache ex_env 0 ''three'' 5 True () ex_state))
       = (Inl (CachedObjectWasMutatedError 5),
          snd (write_to_mem_cache ex_env 0 ''three'' 5 True () ex_state))"
proof -
  let ?s = "snd (write_to_mem_cache ex_env 0 ''three'' 5 True () ex_state)"
  let ?x = "\<lparr>entry_value = 5, entry_hash = None\<rparr> :: int CacheEntry"
  have a: "cache_data (tiers ?s 0) ''three'' = Some (Infinity, ?x)"
    by (simp add: model_defs ex_defs)
  have b: "\<not> expired Infinity (clock ?s)"
    by (simp add: expired_def)
  have c: "entry_hash ?x = None" by simp
  from null_hash_read_follows_read_time_flag [OF a b c, of ex_env True "()"]
       null_hash_read_follows_read_time_flag [OF a b c, of ex_env False "()"] a b
  show ?thesis by simp
qed

text \<open>
  C6 (amended). A non-numeric \<^verbatim>\<open>max_entries\<close> or \<^verbatim>\<open>ttl\<close> does not fail the decoration:
  \<^verbatim>\<open>cache\<close> returns the wrapper. With caching enabled every call of the wrapper raises
  \<^verbatim>\<open>RuntimeError\<close> from \<^verbatim>\<open>get_cache\<close>, before any lookup and without running the
  function, and leaves the state as it was; with caching disabled the call goes straight
  to the function and nothing is raised.
\<close>

theorem non_numeric_bound_raises_at_call:
  assumes "\<not> ignore_hash p"
      and "max_entries p = NonNumeric x \<or> ttl p = NonNumeric x"
  shows "cache env p func = Inr (wrapped_func env p (func_key env (hash_funcs p)) func)
         \<and> (\<forall>args s. client_caching s \<longrightarrow>
               wrapped_func env p (func_key env (hash_funcs p)) func args s
                 = (Inl (RuntimeError
                      (if (\<exists>y. max_entries p = NonNumeric y) then ''max_entries must be an int''
                       else ''ttl must be a float'')), s))
         \<and> (\<forall>args s. \<not> client_caching s \<longrightarrow>
               wrapped_func env p (func_key env (hash_funcs p)) func args s = func args s)"
proof -
  have a: "cache env p func = Inr (wrapped_func env p (func_key env (hash_funcs p)) func)"
    using assms(1) by (simp add: cache_def)
  have b: "get_cache k (max_entries p) (ttl p) s
             = (Inl (RuntimeError
                      (if (\<exists>y. max_entries p = NonNumeric y) then ''max_entries must be an int''
                       else ''ttl must be a float'')), s)" for k and s :: "('c, 'd) state"
    using assms(2)
    by (cases "max_entries p"; cases "ttl p") (auto simp add: get_cache_def none_to_inf_def)
  show ?thesis
    by (simp add: a wrapped_func_def get_or_create_cached_value_def b)
qed

theorem non_numeric_bound_counterexample:
  "\<not> isl (cache ex_env (default_args\<lparr>max_entries := NonNumeric ''abc''\<rparr>) double)
   \<and> fst (projr (cache ex_env (default_args\<lparr>max_entries := NonNumeric ''abc''\<rparr>) double)
             3 ex_state)
     = Inl (RuntimeError ''max_entries must be an int'')"
  by (simp add: cache_def model_defs ex_defs)

theorem non_numeric_bound_raises_at_call_witness:
  "\<not> ignore_hash (default_args\<lparr>ttl := NonNumeric ''abc''\<rparr>)
   \<and> ttl (default_args\<lparr>ttl := NonNumeric ''abc''\<rparr>) = NonNumeric ''abc''
   \<and> client_caching ex_state
   \<and> cache ex_env (default_args\<lparr>ttl := NonNumeric ''abc''\<rparr>) double
       = Inr (wrapped_func ex_env (default_args\<lparr>ttl := NonNumeric ''abc''\<rparr>) ''double'' double)
   \<and> wrapped_func ex_env (default_args\<lparr>ttl := NonNumeric ''abc''\<rparr>) ''double'' double 3 ex_state
       = (Inl (RuntimeError ''ttl must be a float''), ex_state)"
proof -
  let ?p = "default_args\<lparr>ttl := NonNumeric ''abc''\<rparr>"
  have a: "\<not> ignore_hash ?p" by (simp add: default_args_def)
  have b: "max_entries ?p = NonNumeric ''abc'' \<or> ttl ?p = NonNumeric ''abc''" by simp
  have c: "client_caching ex_state" by (simp add: ex_state_def)
  have k: "func_key ex_env (hash_funcs ?p) = ''double''" by (simp add: ex_env_def)
  have m: "max_entries ?p = PyNone" by (simp add: default_args_def)
  note r = non_numeric_bound_raises_at_call [OF a b, of ex_env double]
  from r have "cache ex_env ?p double = Inr (wrapped_func ex_env ?p ''double'' double)"
    using k by simp
  moreover from r c have "wrapped_func ex_env ?p ''double'' double 3 ex_state
       = (Inl (RuntimeError ''ttl must be a float''), ex_state)"
    using k m by simp
  ultimately show ?thesis using a c by simp
qed

lemma read_from_disk_cache_found:
  assumes "files s (cache_path key) = Some (Pickled x)"
  shows "read_from_disk_cache key s =
           (Inr (next_ref s),
            s\<lparr>objects := (objects s)(next_ref s := x), next_ref := next_ref s + 1\<rparr>)"
  using assms by (simp add: read_from_disk_cache_def streamlit_read_load_def)

lemma read_from_disk_cache_missing:
  assumes "files s (cache_path key) = None"
  shows "read_from_disk_cache key s =
           (Inl (CacheKeyNotFoundError ''Key not found in disk cache''), s)"
  using assms by (simp add: read_from_disk_cache_def streamlit_read_load_def)

lemma read_from_cache_live:
  assumes "cache_data (tiers s mc) key = Some (e, xe)" and "\<not> expired e (clock s)"
  shows "read_from_cache env mc key persisted aom hf s =
           (Inr (entry_value xe),
            if aom \<or> Some (get_hash env hf (objects s (entry_value xe))) = entry_hash xe
            then s else s\<lparr>warnings := warnings s @ [get_mutated_output_error_message]\<rparr>)"
  by (simp add: read_from_cache_def read_from_mem_cache_live [OF assms] st_warning_def)

text \<open>
  C2. \<^verbatim>\<open>_read_from_cache\<close> answers from the memory tier when it holds a live entry,
  whatever the disk holds. On a memory miss with persistence enabled and a pickled file
  for the key, it returns a fresh object with the file's content, and the state it
  returns already has the entry in the memory tier (for a tier that admits an entry). On
  a memory miss with persistence enabled and no file, and on a memory miss with
  persistence disabled, it raises \<^verbatim>\<open>CacheKeyNotFoundError\<close> and leaves the state as it was.
\<close>

theorem read_from_cache_memory_then_disk:
  "(\<forall>e xe. cache_data (tiers s mc) key = Some (e, xe) \<and> \<not> expired e (clock s) \<longrightarrow>
      read_from_cache env mc key persisted aom hf s =
        (Inr (entry_value xe),
         if aom \<or> Some (get_hash env hf (objects s (entry_value xe))) = entry_hash xe
         then s else s\<lparr>warnings := warnings s @ [get_mutated_output_error_message]\<rparr>))
   \<and> (\<forall>x. \<not> ttl_contains (tiers s mc) (clock s) key \<and> persisted
          \<and> files s (cache_path key) = Some (Pickled x)
          \<and> \<not> num_less (cache_maxsize (tiers s mc)) (Finite 1) \<longrightarrow>
        (\<exists>s'. read_from_cache env mc key persisted aom hf s = (Inr (next_ref s), s')
           \<and> objects s' (next_ref s) = x
           \<and> cache_data (tiers s' mc) key =
               Some (num_add (Finite (clock s)) (cache_ttl (tiers s mc)),
                     \<lparr>entry_value = next_ref s,
                      entry_hash = if aom then None else Some (get_hash env hf x)\<rparr>)))
   \<and> (\<not> ttl_contains (tiers s mc) (clock s) key \<and> persisted
          \<and> files s (cache_path key) = None \<longrightarrow>
        read_from_cache env mc key persisted aom hf s =
          (Inl (CacheKeyNotFoundError ''Key not found in disk cache''), s))
   \<and> (\<not> ttl_contains (tiers s mc) (clock s) key \<and> \<not> persisted \<longrightarrow>
        read_from_cache env mc key persisted aom hf s =
          (Inl (CacheKeyNotFoundError ''Key not found in mem cache''), s))"
proof -
  have hit: "\<forall>e xe. cache_data (tiers s mc) key = Some (e, xe) \<and> \<not> expired e (clock s) \<longrightarrow>
      read_from_cache env mc key persisted aom hf s =
        (Inr (entry_value xe),
         if aom \<or> Some (get_hash env hf (objects s (entry_value xe))) = entry_hash xe
         then s else s\<lparr>warnings := warnings s @ [get_mutated_output_error_message]\<rparr>)"
  proof (intro allI impI)
    fix e xe
    assume h: "cache_data (tiers s mc) key = Some (e, xe) \<and> \<not> expired e (clock s)"
    then have "cache_data (tiers s mc) key = Some (e, xe)" and "\<not> expired e (clock s)"
      by simp_all
    then show "read_from_cache env mc key persisted aom hf s =
        (Inr (entry_value xe),
         if aom \<or> Some (get_hash env hf (objects s (entry_value xe))) = entry_hash xe
         then s else s\<lparr>warnings := warnings s @ [get_mutated_output_error_message]\<rparr>)"
      by (rule read_from_cache_live)
  qed
  have through: "\<exists>s'. read_from_cache env mc key persisted aom hf s = (Inr (next_ref s), s')
           \<and> objects s' (next_ref s) = x
           \<and> cache_data (tiers s' mc) key =
               Some (num_add (Finite (clock s)) (cache_ttl (tiers s mc)),
                     \<lparr>entry_value = next_ref s,
                      entry_hash = if aom then None else Some (get_hash env hf x)\<rparr>)"
    if miss: "\<not> ttl_contains (tiers s mc) (clock s) key" and p: persisted
      and f: "files s (cache_path key) = Some (Pickled x)"
      and cap: "\<not> num_less (cache_maxsize (tiers s mc)) (Finite 1)" for x
  proof -
    let ?sd = "s\<lparr>objects := (objects s)(next_ref s := x), next_ref := next_ref s + 1\<rparr>"
    show ?thesis
      using p ttl_setitem_result(2) [OF cap] cap
      by (simp add: read_from_cache_def read_from_mem_cache_miss [OF miss]
          read_from_disk_cache_found [OF f] write_to_mem_cache_ok)
  qed
  have nofile: "read_from_cache env mc key persisted aom hf s =
          (Inl (CacheKeyNotFoundError ''Key not found in disk cache''), s)"
    if miss: "\<not> ttl_contains (tiers s mc) (clock s) key" and p: persisted
      and f: "files s (cache_path key) = None"
    using p
    by (simp add: read_from_cache_def read_from_mem_cache_miss [OF miss]
        read_from_disk_cache_missing [OF f])
  have nopersist: "read_from_cache env mc key persisted aom hf s =
          (Inl (CacheKeyNotFoundError ''Key not found in mem cache''), s)"
    if miss: "\<not> ttl_contains (tiers s mc) (clock s) key" and p: "\<not> persisted"
    using p by (simp add: read_from_cache_def read_from_mem_cache_miss [OF miss])
  from hit through nofile nopersist show ?thesis by blast
qed


theorem read_from_cache_memory_then_disk_witness:
  "\<not> ttl_contains (tiers (ex_state\<lparr>files := [cache_path ''three'' \<mapsto> Pickled 6]\<rparr>) 0)
        (clock (ex_state\<lparr>files := [cache_path ''three'' \<mapsto> Pickled 6]\<rparr>)) ''three''
   \<and> files (ex_state\<lparr>files := [cache_path ''three'' \<mapsto> Pickled 6]\<rparr>) (cache_path ''three'')
       = Some (Pickled 6)
   \<and> fst (read_from_cache ex_env 0 ''three'' True False ()
             (ex_state\<lparr>files := [cache_path ''three'' \<mapsto> Pickled 6]\<rparr>)) = Inr 1
   \<and> objects (snd (read_from_cache ex_env 0 ''three'' True False ()
             (ex_state\<lparr>files := [cache_path ''three'' \<mapsto> Pickled 6]\<rparr>))) 1 = 6
   \<and> cache_data (tiers (snd (read_from_cache ex_env 0 ''three'' True False ()
             (ex_state\<lparr>files := [cache_path ''three'' \<mapsto> Pickled 6]\<rparr>))) 0) ''three''
       = Some (Infinity, \<lparr>entry_value = 1, entry_hash = Some 6\<rparr>)"
proof -
  let ?s = "ex_state\<lparr>files := [cache_path ''three'' \<mapsto> Pickled 6]\<rparr>"
  have a: "\<not> ttl_contains (tiers ?s 0) (clock ?s) ''three''"
    by (simp add: ex_state_def ttl_contains_def new_TTLCache_def)
  have b: "files ?s (cache_path ''three'') = Some (Pickled 6)"
    by simp
  have c: "\<not> num_less (cache_maxsize (tiers ?s 0)) (Finite 1)"
    by (simp add: ex_state_def new_TTLCache_def)
  have n: "next_ref ?s = 1" "clock ?s = 0" "cache_ttl (tiers ?s 0) = Infinity"
    by (simp_all add: ex_state_def new_TTLCache_def)
  have g: "get_hash ex_env () 6 = 6"
    by (simp add: ex_env_def)
  from read_from_cache_memory_then_disk [of ?s 0 "''three''" ex_env True False "()"] a b c
  obtain s' where "read_from_cache ex_env 0 ''three'' True False () ?s = (Inr (next_ref ?s), s')"
    and "objects s' (next_ref ?s) = 6"
    and "cache_data (tiers s' 0) ''three'' =
           Some (num_add (Finite (clock ?s)) (cache_ttl (tiers ?s 0)),
                 \<lparr>entry_value = next_ref ?s, entry_hash = Some (get_hash ex_env () 6)\<rparr>)"
    by auto
  then show ?thesis using a b n g by simp
qed


lemma write_to_disk_cache_handled:
  assumes "streamlit_write_dump env (cache_path key) (objects s v) (files s) = (Inl e, fs)"
      and "e = UtilError msg \<or> e = StructError msg"
  shows "write_to_disk_cache env key v s =
           (Inl (CacheError (''Unable to write to cache: '' @ msg)),
            s\<lparr>files := snd (os_remove env (cache_path key) fs)\<rparr>)"
  using assms
  by (auto simp add: write_to_disk_cache_def Let_def os_remove_def)

lemma os_remove_removes:
  "\<not> remove_denied env path \<Longrightarrow> snd (os_remove env path fs) path = None"
  by (simp add: os_remove_def)

text \<open>
  C8. \<^verbatim>\<open>_write_to_disk_cache\<close> at a value whose pickling raises an exception that is
  neither \<^verbatim>\<open>util.Error\<close> nor \<^verbatim>\<open>struct.error\<close>: the exception leaves the function as it
  is and the empty file stays. For comparison, a \<^verbatim>\<open>struct.error\<close> becomes a \<^verbatim>\<open>CacheError\<close>
  and the file is removed, and when the removal itself fails the \<^verbatim>\<open>CacheError\<close> is still
  the error raised.
\<close>

theorem write_to_disk_cache_unhandled_error_leaves_file:
  "fst (write_to_disk_cache (ex_env\<lparr>pickle_dump := (\<lambda>v. Some (OtherError ''PicklingError''))\<rparr>)
          ''three'' 5 ex_state) = Inl (OtherError ''PicklingError'')
   \<and> files (snd (write_to_disk_cache
                   (ex_env\<lparr>pickle_dump := (\<lambda>v. Some (OtherError ''PicklingError''))\<rparr>)
                   ''three'' 5 ex_state)) (cache_path ''three'') = Some ZeroByte
   \<and> fst (write_to_disk_cache (ex_env\<lparr>pickle_dump := (\<lambda>v. Some (StructError ''too large''))\<rparr>)
          ''three'' 5 ex_state) = Inl (CacheError ''Unable to write to cache: too large'')
   \<and> files (snd (write_to_disk_cache
                   (ex_env\<lparr>pickle_dump := (\<lambda>v. Some (StructError ''too large''))\<rparr>)
                   ''three'' 5 ex_state)) (cache_path ''three'') = None
   \<and> fst (write_to_disk_cache
            (ex_env\<lparr>pickle_dump := (\<lambda>v. Some (StructError ''too large'')),
                    remove_denied := (\<lambda>path. True)\<rparr>)
            ''three'' 5 ex_state) = Inl (CacheError ''Unable to write to cache: too large'')"
  by (simp add: model_defs ex_defs)

text \<open>
  C3 (amended). A call misses, the function returns, the memory write succeeds, and the
  disk write fails with \<^verbatim>\<open>util.Error\<close> or \<^verbatim>\<open>struct.error\<close>. Then the call raises
  \<^verbatim>\<open>CacheError\<close> instead of returning the value; the memory write is not rolled back, so
  the memory tier holds the computed value under the call's key.
\<close>

theorem disk_write_failure_aborts_call_keeps_memory:
  assumes on: "client_caching s" and pe: "persist p"
      and gc: "get_cache ck (max_entries p) (ttl p) s = (Inr mc, s1)"
      and miss: "read_from_cache env mc (value_key env (hash_funcs p) args) (persist p)
                   (allow_output_mutation p) (hash_funcs p) s1
                 = (Inl (CacheKeyNotFoundError m), s2)"
      and run: "calling_cached_function
                  (if suppress_st_warning p
                   then suppress_cached_st_function_warning (func args)
                   else func args) s2 = (Inr rv, s3)"
      and mem: "write_to_mem_cache env mc (value_key env (hash_funcs p) args) rv
                  (allow_output_mutation p) (hash_funcs p) s3 = (Inr (), s4)"
      and dump: "streamlit_write_dump env (cache_path (value_key env (hash_funcs p) args))
                   (objects s4 rv) (files s4) = (Inl e, fs)"
      and kind: "e = UtilError msg \<or> e = StructError msg"
  shows "wrapped_func env p ck func args s =
           (Inl (CacheError (''Unable to write to cache: '' @ msg)),
            s4\<lparr>files := snd (os_remove env (cache_path (value_key env (hash_funcs p) args)) fs)\<rparr>)
         \<and> cache_data (tiers s4 mc) (value_key env (hash_funcs p) args) =
             Some (num_add (Finite (clock s3)) (cache_ttl (tiers s3 mc)),
                   \<lparr>entry_value = rv,
                    entry_hash = if allow_output_mutation p then None
                                 else Some (get_hash env (hash_funcs p) (objects s3 rv))\<rparr>)"
proof -
  have cap: "\<not> num_less (cache_maxsize (tiers s3 mc)) (Finite 1)"
    using write_to_mem_cache_Inr [OF mem] .
  from mem write_to_mem_cache_ok [OF cap, of env "value_key env (hash_funcs p) args" rv
      "allow_output_mutation p" "hash_funcs p"]
  have s4: "s4 = s3\<lparr>tiers := (tiers s3)(mc := snd (ttl_setitem (tiers s3 mc) (clock s3)
                 (value_key env (hash_funcs p) args)
                 \<lparr>entry_value = rv,
                  entry_hash = if allow_output_mutation p then None
                               else Some (get_hash env (hash_funcs p) (objects s3 rv))\<rparr>))\<rparr>"
    by simp
  have d: "cache_data (tiers s4 mc) (value_key env (hash_funcs p) args) =
             Some (num_add (Finite (clock s3)) (cache_ttl (tiers s3 mc)),
                   \<lparr>entry_value = rv,
                    entry_hash = if allow_output_mutation p then None
                                 else Some (get_hash env (hash_funcs p) (objects s3 rv))\<rparr>)"
    using ttl_setitem_result(2) [OF cap] by (simp add: s4)
  have wc: "write_to_cache env mc (value_key env (hash_funcs p) args) rv (persist p)
              (allow_output_mutation p) (hash_funcs p) s3
            = (Inl (CacheError (''Unable to write to cache: '' @ msg)),
               s4\<lparr>files := snd (os_remove env (cache_path (value_key env (hash_funcs p) args)) fs)\<rparr>)"
    using pe by (simp add: write_to_cache_def mem write_to_disk_cache_handled [OF dump kind])
  have "wrapped_func env p ck func args s =
           (Inl (CacheError (''Unable to write to cache: '' @ msg)),
            s4\<lparr>files := snd (os_remove env (cache_path (value_key env (hash_funcs p) args)) fs)\<rparr>)"
    using on by (simp add: wrapped_func_def get_or_create_cached_value_def gc miss run wc)
  with d show ?thesis by simp
qed

subsection \<open>Calls of the decorated function\<close>

lemma get_cache_Inr:
  assumes "get_cache k me tt s = (Inr mc, sa)"
  shows "function_caches sa k = Some mc \<and> client_caching sa = client_caching s"
  using assms
  by (cases "none_to_inf me"; cases "none_to_inf tt")
     (auto simp add: get_cache_def Let_def split: option.splits if_splits)

lemma get_cache_frame:
  assumes "k' \<noteq> k"
  shows "function_caches (snd (get_cache k' me tt s)) k = function_caches s k"
  using assms
  by (cases "none_to_inf me"; cases "none_to_inf tt")
     (auto simp add: get_cache_def Let_def split: option.splits if_splits)

lemma get_cache_again:
  assumes "none_to_inf me = Numeric m" and "none_to_inf tt = Numeric t"
      and "num_eq (cache_maxsize (tiers s mc)) m" and "num_eq (cache_ttl (tiers s mc)) t"
      and "function_caches s k = Some mc"
  shows "get_cache k me tt s = (Inr mc, s)"
  using assms(3-5) by (simp add: get_cache_numeric [OF assms(1,2)])

lemma wrapped_func_live:
  assumes on: "client_caching s"
      and reg: "function_caches s ck = Some mc"
      and b1: "none_to_inf (max_entries p) = Numeric m"
      and b2: "none_to_inf (ttl p) = Numeric t"
      and e1: "num_eq (cache_maxsize (tiers s mc)) m"
      and e2: "num_eq (cache_ttl (tiers s mc)) t"
      and d: "cache_data (tiers s mc) (value_key env (hash_funcs p) args) = Some (e, x)"
      and l: "\<not> expired e (clock s)"
  shows "wrapped_func env p ck func args s =
           (Inr (entry_value x),
            if allow_output_mutation p
               \<or> Some (get_hash env (hash_funcs p) (objects s (entry_value x))) = entry_hash x
            then s else s\<lparr>warnings := warnings s @ [get_mutated_output_error_message]\<rparr>)"
  using on
  by (simp add: wrapped_func_def get_or_create_cached_value_def
      get_cache_again [OF b1 b2 e1 e2 reg] read_from_cache_live [OF d l])

lemma read_from_cache_post:
  assumes "read_from_cache env mc key persisted aom hf sa = (r, s2)"
  shows "function_caches s2 = function_caches sa \<and> client_caching s2 = client_caching sa
         \<and> cache_maxsize (tiers s2 mc) = cache_maxsize (tiers sa mc)
         \<and> cache_ttl (tiers s2 mc) = cache_ttl (tiers sa mc)
         \<and> (\<forall>v. r = Inr v \<longrightarrow> (\<exists>e x. cache_data (tiers s2 mc) key = Some (e, x)
                                     \<and> entry_value x = v))
         \<and> (\<forall>m. r = Inl (CacheKeyNotFoundError m) \<longrightarrow> s2 = sa)"
proof (cases "ttl_contains (tiers sa mc) (clock sa) key")
  case True
  then obtain e x where d: "cache_data (tiers sa mc) key = Some (e, x)"
    and l: "\<not> expired e (clock sa)"
    by (auto simp add: ttl_contains_def split: option.splits)
  from assms read_from_cache_live [OF d l, of env persisted aom hf] d
  show ?thesis by (auto split: if_splits)
next
  case False
  note miss = read_from_mem_cache_miss [OF False, of env aom hf]
  show ?thesis
  proof (cases persisted)
    case np: False
    with assms miss show ?thesis by (auto simp add: read_from_cache_def)
  next
    case pe: True
    show ?thesis
    proof (cases "streamlit_read_load (cache_path key) (files sa)")
      case (Inl ex)
      with assms miss pe show ?thesis
        by (cases ex) (auto simp add: read_from_cache_def read_from_disk_cache_def)
    next
      case (Inr content)
      let ?sd = "sa\<lparr>objects := (objects sa)(next_ref sa := content),
                   next_ref := next_ref sa + 1\<rparr>"
      have rd: "read_from_disk_cache key sa = (Inr (next_ref sa), ?sd)"
        using Inr by (simp add: read_from_disk_cache_def)
      show ?thesis
      proof (cases "num_less (cache_maxsize (tiers sa mc)) (Finite 1)")
        case True
        then have "fst (write_to_mem_cache env mc key (next_ref sa) aom hf ?sd)
                     = Inl (ValueError ''value too large'')"
          and "function_caches (snd (write_to_mem_cache env mc key (next_ref sa) aom hf ?sd))
                 = function_caches sa"
          and "client_caching (snd (write_to_mem_cache env mc key (next_ref sa) aom hf ?sd))
                 = client_caching sa"
          and "cache_maxsize (tiers (snd (write_to_mem_cache env mc key (next_ref sa) aom hf ?sd)) mc)
                 = cache_maxsize (tiers sa mc)"
          and "cache_ttl (tiers (snd (write_to_mem_cache env mc key (next_ref sa) aom hf ?sd)) mc)
                 = cache_ttl (tiers sa mc)"
          by (simp_all add: write_to_mem_cache_def ttl_setitem_def ttl_expire_def Let_def)
        with assms miss pe rd show ?thesis
          by (auto simp add: read_from_cache_def split: prod.splits sum.splits)
      next
        case False
        then have cap: "\<not> num_less (cache_maxsize (tiers ?sd mc)) (Finite 1)" by simp
        from assms miss pe rd write_to_mem_cache_ok [OF cap, of env key "next_ref sa" aom hf]
             ttl_setitem_result(2-4) [OF False]
        show ?thesis
          by (auto simp add: read_from_cache_def)
      qed
    qed
  qed
qed

lemma scopes_keep_slot:
  fixes func :: "'a \<Rightarrow> ('v, 'd) state \<Rightarrow> (exn + ref) \<times> ('v, 'd) state"
  assumes keeps: "\<forall>a s. function_caches (snd (func a s)) ck = function_caches s ck"
      and run: "calling_cached_function
                  (if quiet then suppress_cached_st_function_warning (func args) else func args) s2
                = (r, s3)"
  shows "function_caches s3 ck = function_caches s2 ck"
proof -
  have n: "function_caches (snd (func args s)) ck = function_caches s ck" for s
    using keeps by simp
  from run show ?thesis
    by (cases quiet)
       (auto simp add: calling_cached_function_def suppress_cached_st_function_warning_def
          Let_def case_prod_beta n split: if_splits)
qed

lemma write_to_disk_cache_frame:
  "function_caches (snd (write_to_disk_cache env key v s)) = function_caches s
   \<and> tiers (snd (write_to_disk_cache env key v s)) = tiers s
   \<and> client_caching (snd (write_to_disk_cache env key v s)) = client_caching s"
  by (auto simp add: write_to_disk_cache_def Let_def split: prod.splits sum.splits exn.splits)

lemma write_to_cache_frame:
  "function_caches (snd (write_to_cache env mc key v persist0 aom hf s)) = function_caches s"
proof -
  have m: "function_caches (snd (write_to_mem_cache env mc key v aom hf s)) = function_caches s"
    by (simp add: write_to_mem_cache_def Let_def case_prod_beta)
  show ?thesis
    using m write_to_disk_cache_frame [of env key v "snd (write_to_mem_cache env mc key v aom hf s)"]
    by (cases "write_to_mem_cache env mc key v aom hf s")
       (auto simp add: write_to_cache_def split: sum.splits)
qed

lemma write_to_cache_post:
  assumes "write_to_cache env mc key rv persist0 aom hf s3 = (Inr u, s4)"
  shows "function_caches s4 = function_caches s3 \<and> client_caching s4 = client_caching s3
         \<and> cache_maxsize (tiers s4 mc) = cache_maxsize (tiers s3 mc)
         \<and> cache_ttl (tiers s4 mc) = cache_ttl (tiers s3 mc)
         \<and> (\<exists>e x. cache_data (tiers s4 mc) key = Some (e, x) \<and> entry_value x = rv)"
proof -
  obtain rm sm where m: "write_to_mem_cache env mc key rv aom hf s3 = (rm, sm)"
    by (cases "write_to_mem_cache env mc key rv aom hf s3")
  with assms obtain um where rm: "rm = Inr um"
    by (cases rm) (auto simp add: write_to_cache_def)
  have cap: "\<not> num_less (cache_maxsize (tiers s3 mc)) (Finite 1)"
    using write_to_mem_cache_Inr [OF m [unfolded rm]] .
  from m write_to_mem_cache_ok [OF cap, of env key rv aom hf]
  have sm: "sm = s3\<lparr>tiers := (tiers s3)(mc := snd (ttl_setitem (tiers s3 mc) (clock s3) key
                 \<lparr>entry_value = rv,
                  entry_hash = if aom then None else Some (get_hash env hf (objects s3 rv))\<rparr>))\<rparr>"
    by simp
  have post_m: "function_caches sm = function_caches s3 \<and> client_caching sm = client_caching s3
         \<and> cache_maxsize (tiers sm mc) = cache_maxsize (tiers s3 mc)
         \<and> cache_ttl (tiers sm mc) = cache_ttl (tiers s3 mc)
         \<and> (\<exists>e x. cache_data (tiers sm mc) key = Some (e, x) \<and> entry_value x = rv)"
    using ttl_setitem_result(2-4) [OF cap] by (simp add: sm)
  show ?thesis
  proof (cases persist0)
    case False
    with assms m rm have "s4 = sm" by (simp add: write_to_cache_def)
    with post_m show ?thesis by simp
  next
    case True
    with assms m rm have "s4 = snd (write_to_disk_cache env key rv sm)"
      by (simp add: write_to_cache_def)
    with post_m write_to_disk_cache_frame [of env key rv sm] show ?thesis by simp
  qed
qed

text \<open>
  A call of a cached function leaves the registry slot of every other function as it was,
  when its body does. So a body that calls other cached functions does not touch the slot
  of the function it belongs to.
\<close>

lemma wrapped_func_keeps_other_slot:
  fixes g :: "'a \<Rightarrow> ('v, 'd) state \<Rightarrow> (exn + ref) \<times> ('v, 'd) state"
  assumes keeps: "\<forall>a s. function_caches (snd (g a s)) ck = function_caches s ck"
      and other: "ck' \<noteq> ck"
  shows "function_caches (snd (wrapped_func env p ck' g args s)) ck = function_caches s ck"
proof (cases "client_caching s")
  case False
  with keeps show ?thesis by (simp add: wrapped_func_def)
next
  case True
  let ?key = "value_key env (hash_funcs p) args"
  have w: "wrapped_func env p ck' g args s = get_or_create_cached_value env p ck' g args s"
    using True by (simp add: wrapped_func_def)
  obtain rg sa where gc: "get_cache ck' (max_entries p) (ttl p) s = (rg, sa)"
    by (cases "get_cache ck' (max_entries p) (ttl p) s")
  from get_cache_frame [OF other, of "max_entries p" "ttl p" s] gc
  have fa: "function_caches sa ck = function_caches s ck" by simp
  show ?thesis
  proof (cases rg)
    case (Inl e)
    with gc fa show ?thesis by (simp add: w get_or_create_cached_value_def)
  next
    case (Inr mc)
    obtain rr s2 where rc: "read_from_cache env mc ?key (persist p) (allow_output_mutation p)
                              (hash_funcs p) sa = (rr, s2)"
      by (cases "read_from_cache env mc ?key (persist p) (allow_output_mutation p)
                   (hash_funcs p) sa")
    from read_from_cache_post [OF rc] fa
    have f2: "function_caches s2 ck = function_caches s ck" by simp
    obtain rf s3 where run: "calling_cached_function
                  (if suppress_st_warning p
                   then suppress_cached_st_function_warning (g args)
                   else g args) s2 = (rf, s3)"
      by (cases "calling_cached_function
                  (if suppress_st_warning p
                   then suppress_cached_st_function_warning (g args)
                   else g args) s2")
    from scopes_keep_slot [OF keeps run] f2
    have f3: "function_caches s3 ck = function_caches s ck" by simp
    have f4: "function_caches (snd (write_to_cache env mc ?key rv (persist p)
                (allow_output_mutation p) (hash_funcs p) s3)) ck = function_caches s ck" for rv
      using f3 by (simp add: write_to_cache_frame)
    show ?thesis
    proof (cases rr)
      case rv: (Inr v)
      with gc Inr rc f2 show ?thesis by (simp add: w get_or_create_cached_value_def)
    next
      case ex: (Inl e)
      show ?thesis
      proof (cases rf)
        case (Inl e')
        with gc Inr rc ex run f2 f3 show ?thesis
          by (cases e) (simp_all add: w get_or_create_cached_value_def)
      next
        case rv: (Inr v)
        with gc \<open>rg = Inr mc\<close> rc ex run f2 f3 f4 [of v] show ?thesis
          by (cases e)
             (auto simp add: w get_or_create_cached_value_def split: prod.splits sum.splits)
      qed
    qed
  qed
qed

lemma first_call_post:
  fixes func :: "'a \<Rightarrow> ('v, 'd) state \<Rightarrow> (exn + ref) \<times> ('v, 'd) state"
  assumes on: "client_caching s0"
      and keeps: "\<forall>a s. function_caches (snd (func a s)) ck = function_caches s ck"
      and first: "wrapped_func env p ck func args s0 = (Inr v, s1)"
  shows "\<exists>mc. function_caches s1 ck = Some mc
              \<and> (\<exists>e x. cache_data (tiers s1 mc) (value_key env (hash_funcs p) args) = Some (e, x)
                     \<and> entry_value x = v)"
proof -
  let ?key = "value_key env (hash_funcs p) args"
  from first on
  have goc: "get_or_create_cached_value env p ck func args s0 = (Inr v, s1)"
    by (simp add: wrapped_func_def)
  obtain rg sa where gc: "get_cache ck (max_entries p) (ttl p) s0 = (rg, sa)"
    by (cases "get_cache ck (max_entries p) (ttl p) s0")
  with goc obtain mc where rg: "rg = Inr mc"
    by (cases rg) (auto simp add: get_or_create_cached_value_def)
  from get_cache_Inr [OF gc [unfolded rg]]
  have ga: "function_caches sa ck = Some mc"
    by simp
  obtain rr s2 where rc: "read_from_cache env mc ?key (persist p) (allow_output_mutation p)
                            (hash_funcs p) sa = (rr, s2)"
    by (cases "read_from_cache env mc ?key (persist p) (allow_output_mutation p)
                 (hash_funcs p) sa")
  note rp = read_from_cache_post [OF rc]
  show ?thesis
  proof (cases rr)
    case (Inr v')
    with goc gc rg rc have "v' = v" "s1 = s2"
      by (simp_all add: get_or_create_cached_value_def)
    with rp Inr ga show ?thesis by auto
  next
    case (Inl ex)
    with goc gc rg rc obtain m where ex: "ex = CacheKeyNotFoundError m"
      by (cases ex) (auto simp add: get_or_create_cached_value_def)
    with rp Inl have s2: "s2 = sa" by simp
    obtain rf s3 where run: "calling_cached_function
                  (if suppress_st_warning p
                   then suppress_cached_st_function_warning (func args)
                   else func args) s2 = (rf, s3)"
      by (cases "calling_cached_function
                  (if suppress_st_warning p
                   then suppress_cached_st_function_warning (func args)
                   else func args) s2")
    note sp = scopes_keep_slot [OF keeps run]
    from goc gc rg rc Inl ex run obtain rv where rf: "rf = Inr rv"
      by (cases rf) (auto simp add: get_or_create_cached_value_def)
    obtain rw s4 where wc: "write_to_cache env mc ?key rv (persist p) (allow_output_mutation p)
                              (hash_funcs p) s3 = (rw, s4)"
      by (cases "write_to_cache env mc ?key rv (persist p) (allow_output_mutation p)
                   (hash_funcs p) s3")
    from goc gc rg rc Inl ex run rf wc obtain u where rw: "rw = Inr u"
      by (cases rw) (auto simp add: get_or_create_cached_value_def)
    from goc gc rg rc Inl ex run rf wc rw have vs: "v = rv" "s1 = s4"
      by (simp_all add: get_or_create_cached_value_def)
    note wp = write_to_cache_post [OF wc [unfolded rw]]
    from wp sp s2 ga vs show ?thesis by auto
  qed
qed

text \<open>
  C1 (amended). Caching is enabled, a first call returns normally, and the function's
  body does not change which tier is registered for the function (it may call other
  cached functions; it does not clear the cache). If caching is still enabled at a second
  call with the same arguments, and the function's tier then has the decorator's bounds
  and still holds an unexpired entry for the call, the second call returns the value of
  the first and does not run the body: its outcome is the same whatever function stands
  in place of the decorated one.
\<close>

theorem second_call_does_not_rerun:
  fixes func :: "'a \<Rightarrow> ('v, 'd) state \<Rightarrow> (exn + ref) \<times> ('v, 'd) state"
  assumes on: "client_caching s0"
      and keeps: "\<forall>a s. function_caches (snd (func a s)) ck = function_caches s ck"
      and first: "wrapped_func env p ck func args s0 = (Inr v, s1)"
      and on2: "client_caching s1"
      and live: "still_cached env p ck args later s1"
  shows "\<forall>func'. fst (wrapped_func env p ck func' args (s1\<lparr>clock := later\<rparr>)) = Inr v
           \<and> wrapped_func env p ck func' args (s1\<lparr>clock := later\<rparr>)
               = wrapped_func env p ck func args (s1\<lparr>clock := later\<rparr>)"
proof -
  let ?key = "value_key env (hash_funcs p) args"
  let ?s = "s1\<lparr>clock := later\<rparr>"
  from first_call_post [OF on keeps first]
  obtain mc e x where reg: "function_caches s1 ck = Some mc"
    and d: "cache_data (tiers s1 mc) ?key = Some (e, x)"
    and xv: "entry_value x = v"
    by blast
  from live reg obtain m t where b1: "none_to_inf (max_entries p) = Numeric m"
    and b2: "none_to_inf (ttl p) = Numeric t"
    and e1: "num_eq (cache_maxsize (tiers s1 mc)) m"
    and e2: "num_eq (cache_ttl (tiers s1 mc)) t"
    and c: "ttl_contains (tiers s1 mc) later ?key"
    by (auto simp add: still_cached_def split: param.splits)
  from c d have l: "\<not> expired e later"
    by (simp add: ttl_contains_def)
  have c': "client_caching ?s" using on2 by simp
  have reg': "function_caches ?s ck = Some mc" using reg by simp
  have e1': "num_eq (cache_maxsize (tiers ?s mc)) m" using e1 by simp
  have e2': "num_eq (cache_ttl (tiers ?s mc)) t" using e2 by simp
  have d': "cache_data (tiers ?s mc) ?key = Some (e, x)" using d by simp
  have l': "\<not> expired e (clock ?s)" using l by simp
  note w = wrapped_func_live [OF c' reg' b1 b2 e1' e2' d' l']
  show ?thesis
    by (simp add: w xv)
qed

text \<open>
  Against C1 as stated: with a ttl of one second and the second call five seconds after
  the first, the body runs twice and the second call returns a new object.
\<close>

theorem second_call_counterexample:
  "fst (wrapped_func ex_env (default_args\<lparr>ttl := Numeric (Finite 1)\<rparr>) ''double'' double 3
          ex_state) = Inr 2
   \<and> objects (snd (wrapped_func ex_env (default_args\<lparr>ttl := Numeric (Finite 1)\<rparr>) ''double''
                     double 3 ex_state)) 0 = 1
   \<and> fst (wrapped_func ex_env (default_args\<lparr>ttl := Numeric (Finite 1)\<rparr>) ''double'' double 3
          ((snd (wrapped_func ex_env (default_args\<lparr>ttl := Numeric (Finite 1)\<rparr>) ''double''
                   double 3 ex_state))\<lparr>clock := 5\<rparr>)) = Inr 3
   \<and> objects (snd (wrapped_func ex_env (default_args\<lparr>ttl := Numeric (Finite 1)\<rparr>) ''double''
                     double 3
          ((snd (wrapped_func ex_env (default_args\<lparr>ttl := Numeric (Finite 1)\<rparr>) ''double''
                   double 3 ex_state))\<lparr>clock := 5\<rparr>))) 0 = 2"
  by (simp add: model_defs ex_defs)

text \<open>
  The witness: \<open>quadruple\<close>, whose body calls the cached \<open>double\<close>. The second call, five
  seconds later, returns the object of the first, and the counter of \<open>double\<close> stays at 1.
\<close>

theorem second_call_does_not_rerun_witness:
  "client_caching ex_state
   \<and> fst (wrapped_func ex_env default_args ''quadruple'' quadruple 3 ex_state) = Inr 4
   \<and> objects (snd (wrapped_func ex_env default_args ''quadruple'' quadruple 3 ex_state)) 4 = 12
   \<and> objects (snd (wrapped_func ex_env default_args ''quadruple'' quadruple 3 ex_state)) 0 = 1
   \<and> client_caching (snd (wrapped_func ex_env default_args ''quadruple'' quadruple 3 ex_state))
   \<and> still_cached ex_env default_args ''quadruple'' 3 5
        (snd (wrapped_func ex_env default_args ''quadruple'' quadruple 3 ex_state))
   \<and> fst (wrapped_func ex_env default_args ''quadruple'' quadruple 3
            ((snd (wrapped_func ex_env default_args ''quadruple'' quadruple 3 ex_state))
               \<lparr>clock := 5\<rparr>)) = Inr 4
   \<and> objects (snd (wrapped_func ex_env default_args ''quadruple'' quadruple 3
            ((snd (wrapped_func ex_env default_args ''quadruple'' quadruple 3 ex_state))
               \<lparr>clock := 5\<rparr>))) 0 = 1"
proof -
  let ?s1 = "snd (wrapped_func ex_env default_args ''quadruple'' quadruple 3 ex_state)"
  have on: "client_caching ex_state" by (simp add: ex_state_def)
  have dk: "\<forall>a s. function_caches (snd (double a s)) ''quadruple'' = function_caches s ''quadruple''"
    by (simp add: double_def)
  have keeps: "\<forall>a s. function_caches (snd (quadruple a s)) ''quadruple''
                       = function_caches s ''quadruple''"
  proof (intro allI)
    fix a s
    have "function_caches (snd (wrapped_func ex_env default_args ''double'' double a s))
            ''quadruple'' = function_caches s ''quadruple''"
      by (rule wrapped_func_keeps_other_slot [OF dk]) simp
    then show "function_caches (snd (quadruple a s)) ''quadruple''
                 = function_caches s ''quadruple''"
      by (cases "wrapped_func ex_env default_args ''double'' double a s")
         (auto simp add: quadruple_def split: sum.splits)
  qed
  have f: "fst (wrapped_func ex_env default_args ''quadruple'' quadruple 3 ex_state) = Inr 4"
    by (simp add: quadruple_def model_defs ex_defs)
  then have first: "wrapped_func ex_env default_args ''quadruple'' quadruple 3 ex_state
                      = (Inr 4, ?s1)"
    by (simp add: prod_eq_iff)
  have o: "objects ?s1 4 = 12" "objects ?s1 0 = 1"
    by (simp_all add: quadruple_def model_defs ex_defs)
  have on2: "client_caching ?s1"
    by (simp add: quadruple_def model_defs ex_defs)
  have live: "still_cached ex_env default_args ''quadruple'' 3 5 ?s1"
    by (simp add: still_cached_def quadruple_def model_defs ex_defs)
  note r = second_call_does_not_rerun [OF on keeps first on2 live]
  from r have a: "fst (wrapped_func ex_env default_args ''quadruple'' quadruple 3
                         (?s1\<lparr>clock := 5\<rparr>)) = Inr 4"
    by blast
  have b: "objects (snd (wrapped_func ex_env default_args ''quadruple'' quadruple 3
                           (?s1\<lparr>clock := 5\<rparr>))) 0 = 1"
    by (simp add: quadruple_def model_defs ex_defs)
  from on f o on2 live a b show ?thesis by simp
qed

text \<open>
  Against C3 as stated: the body ran and its result was stored in memory, yet the call
  raises \<^verbatim>\<open>CacheError\<close> when the file cannot be opened.
\<close>

theorem disk_write_failure_counterexample:
  "fst (wrapped_func (ex_env\<lparr>open_denied := (\<lambda>path. True)\<rparr>) (default_args\<lparr>persist := True\<rparr>)
          ''double'' double 3 ex_state)
     = Inl (CacheError ''Unable to write to cache: Unable to write file: cache/three.pickle'')
   \<and> objects (snd (wrapped_func (ex_env\<lparr>open_denied := (\<lambda>path. True)\<rparr>)
                     (default_args\<lparr>persist := True\<rparr>) ''double'' double 3 ex_state)) 0 = 1
   \<and> objects (snd (wrapped_func (ex_env\<lparr>open_denied := (\<lambda>path. True)\<rparr>)
                     (default_args\<lparr>persist := True\<rparr>) ''double'' double 3 ex_state)) 2 = 6"
  by (simp add: model_defs ex_defs)

theorem disk_write_failure_aborts_call_keeps_memory_witness:
  "client_caching ex_state \<and> persist (default_args\<lparr>persist := True\<rparr>)
   \<and> fst (get_cache ''double'' (max_entries (default_args\<lparr>persist := True\<rparr>))
            (ttl (default_args\<lparr>persist := True\<rparr>)) ex_state) = Inr 1
   \<and> fst (wrapped_func (ex_env\<lparr>pickle_dump := (\<lambda>v. Some (StructError ''too large''))\<rparr>)
            (default_args\<lparr>persist := True\<rparr>) ''double'' double 3 ex_state)
       = Inl (CacheError ''Unable to write to cache: too large'')
   \<and> ttl_getitem (tiers (snd (wrapped_func
            (ex_env\<lparr>pickle_dump := (\<lambda>v. Some (StructError ''too large''))\<rparr>)
            (default_args\<lparr>persist := True\<rparr>) ''double'' double 3 ex_state)) 1) 0 ''three''
       = Some \<lparr>entry_value = 2, entry_hash = Some 6\<rparr>"
proof -
  let ?env = "ex_env\<lparr>pickle_dump := (\<lambda>v. Some (StructError ''too large''))\<rparr>"
  let ?p = "default_args\<lparr>persist := True\<rparr>"
  let ?s1 = "snd (get_cache ''double'' (max_entries ?p) (ttl ?p) ex_state)"
  let ?body = "if suppress_st_warning ?p
               then suppress_cached_st_function_warning (double 3) else double 3"
  let ?s3 = "snd (calling_cached_function ?body ?s1)"
  let ?s4 = "snd (write_to_mem_cache ?env 1 (value_key ?env (hash_funcs ?p) 3) 2
                    (allow_output_mutation ?p) (hash_funcs ?p) ?s3)"
  let ?fs = "snd (streamlit_write_dump ?env (cache_path (value_key ?env (hash_funcs ?p) 3))
                    (objects ?s4 2) (files ?s4))"
  have on: "client_caching ex_state" by (simp add: ex_state_def)
  have pe: "persist ?p" by simp
  have g1: "fst (get_cache ''double'' (max_entries ?p) (ttl ?p) ex_state) = Inr 1"
    by (simp add: model_defs ex_defs)
  then have gc: "get_cache ''double'' (max_entries ?p) (ttl ?p) ex_state = (Inr 1, ?s1)"
    by (simp add: prod_eq_iff)
  have miss: "read_from_cache ?env 1 (value_key ?env (hash_funcs ?p) 3) (persist ?p)
                (allow_output_mutation ?p) (hash_funcs ?p) ?s1
              = (Inl (CacheKeyNotFoundError ''Key not found in disk cache''), ?s1)"
    by (simp add: model_defs ex_defs)
  have "fst (calling_cached_function ?body ?s1) = Inr 2"
    by (simp add: model_defs ex_defs)
  then have run: "calling_cached_function ?body ?s1 = (Inr 2, ?s3)"
    by (simp add: prod_eq_iff)
  have "fst (write_to_mem_cache ?env 1 (value_key ?env (hash_funcs ?p) 3) 2
               (allow_output_mutation ?p) (hash_funcs ?p) ?s3) = Inr ()"
    by (simp add: model_defs ex_defs)
  then have mem: "write_to_mem_cache ?env 1 (value_key ?env (hash_funcs ?p) 3) 2
               (allow_output_mutation ?p) (hash_funcs ?p) ?s3 = (Inr (), ?s4)"
    by (simp add: prod_eq_iff)
  have "fst (streamlit_write_dump ?env (cache_path (value_key ?env (hash_funcs ?p) 3))
               (objects ?s4 2) (files ?s4)) = Inl (StructError ''too large'')"
    by (simp add: model_defs ex_defs)
  then have dump: "streamlit_write_dump ?env (cache_path (value_key ?env (hash_funcs ?p) 3))
               (objects ?s4 2) (files ?s4) = (Inl (StructError ''too large''), ?fs)"
    by (simp add: prod_eq_iff)
  have kind: "StructError ''too large'' = UtilError ''too large''
              \<or> StructError ''too large'' = StructError ''too large''"
    by simp
  note r = disk_write_failure_aborts_call_keeps_memory
             [where func = double and args = 3, OF on pe gc miss run mem dump kind]
  from r have a: "fst (wrapped_func ?env ?p ''double'' double 3 ex_state)
                    = Inl (CacheError ''Unable to write to cache: too large'')"
    by simp
  from r have t: "tiers (snd (wrapped_func ?env ?p ''double'' double 3 ex_state)) = tiers ?s4"
    by simp
  have "ttl_getitem (tiers ?s4 1) 0 ''three'' = Some \<lparr>entry_value = 2, entry_hash = Some 6\<rparr>"
    by (simp add: model_defs ex_defs)
  with on pe g1 a t show ?thesis by simp
qed

text \<open>
  C10 (amended). The tier of a function is found by its cache key, \<^verbatim>\<open>max_entries\<close> and
  \<^verbatim>\<open>ttl\<close>; \<^verbatim>\<open>allow_output_mutation\<close> takes no part, and \<^verbatim>\<open>hash_funcs\<close> takes part through
  the cache key and the key of the call, which the decorator computes with it. When new
  decorator arguments leave both keys as they were, as a change of
  \<^verbatim>\<open>allow_output_mutation\<close> alone always does, and the registered tier has their bounds
  (by \<^verbatim>\<open>==\<close>), \<^verbatim>\<open>get_cache\<close> returns that tier and changes nothing, and an entry written
  under the old arguments is read under the new ones without running the function: the
  read warns unless the reader allows mutation or the entry carries the digest that the
  reader's table gives.
\<close>

theorem tier_kept_when_only_policy_changes:
  assumes on: "client_caching s"
      and nih: "\<not> ignore_hash p'"
      and reg: "function_caches s (func_key env (hash_funcs p)) = Some mc"
      and b1: "none_to_inf (max_entries p') = Numeric m"
      and b2: "none_to_inf (ttl p') = Numeric t"
      and e1: "num_eq (cache_maxsize (tiers s mc)) m"
      and e2: "num_eq (cache_ttl (tiers s mc)) t"
      and fk: "func_key env (hash_funcs p') = func_key env (hash_funcs p)"
      and vk: "value_key env (hash_funcs p') args = value_key env (hash_funcs p) args"
      and w: "write_to_mem_cache env mc (value_key env (hash_funcs p) args) v
                (allow_output_mutation p) (hash_funcs p) s = (Inr (), s1)"
      and live: "\<not> expired (num_add (Finite (clock s)) (cache_ttl (tiers s mc))) later"
  shows "get_cache (func_key env (hash_funcs p')) (max_entries p') (ttl p') (s1\<lparr>clock := later\<rparr>)
           = (Inr mc, s1\<lparr>clock := later\<rparr>)
         \<and> cache env p' func = Inr (wrapped_func env p' (func_key env (hash_funcs p')) func)
         \<and> wrapped_func env p' (func_key env (hash_funcs p')) func args (s1\<lparr>clock := later\<rparr>)
           = (Inr v,
              if allow_output_mutation p'
                 \<or> (\<not> allow_output_mutation p
                     \<and> get_hash env (hash_funcs p') (objects s v)
                         = get_hash env (hash_funcs p) (objects s v))
              then s1\<lparr>clock := later\<rparr>
              else s1\<lparr>clock := later,
                      warnings := warnings s1 @ [get_mutated_output_error_message]\<rparr>)"
proof -
  let ?key = "value_key env (hash_funcs p) args"
  let ?x = "\<lparr>entry_value = v,
             entry_hash = if allow_output_mutation p then None
                          else Some (get_hash env (hash_funcs p) (objects s v))\<rparr>"
  let ?e = "num_add (Finite (clock s)) (cache_ttl (tiers s mc))"
  let ?s = "s1\<lparr>clock := later\<rparr>"
  have cap: "\<not> num_less (cache_maxsize (tiers s mc)) (Finite 1)"
    using write_to_mem_cache_Inr [OF w] .
  from w write_to_mem_cache_ok [OF cap, of env ?key v "allow_output_mutation p" "hash_funcs p"]
  have s1: "s1 = s\<lparr>tiers := (tiers s)(mc := snd (ttl_setitem (tiers s mc) (clock s) ?key ?x))\<rparr>"
    by simp
  note si = ttl_setitem_result(2-4) [OF cap, of "clock s" ?key ?x]
  have c': "client_caching ?s" using on by (simp add: s1)
  have reg': "function_caches ?s (func_key env (hash_funcs p')) = Some mc"
    using reg fk by (simp add: s1)
  have e1': "num_eq (cache_maxsize (tiers ?s mc)) m"
    using e1 si by (simp add: s1)
  have e2': "num_eq (cache_ttl (tiers ?s mc)) t"
    using e2 si by (simp add: s1)
  have d': "cache_data (tiers ?s mc) (value_key env (hash_funcs p') args) = Some (?e, ?x)"
    using si vk by (simp add: s1)
  have l': "\<not> expired ?e (clock ?s)" using live by simp
  have o: "objects ?s v = objects s v" by (simp add: s1)
  have k: "cache env p' func = Inr (wrapped_func env p' (func_key env (hash_funcs p')) func)"
    using nih by (simp add: cache_def)
  from wrapped_func_live [OF c' reg' b1 b2 e1' e2' d' l', of func] o k
       get_cache_again [OF b1 b2 e1' e2' reg']
  show ?thesis by auto
qed

text \<open>
  Against C10 as stated: the bounds stay the same and only the table of hash overrides
  changes, to one that changes the digest of the function. The decorated function then
  looks under another cache key: a second tier is registered, the entry of the first call
  is not read, and the body runs again.
\<close>

theorem changed_table_counterexample:
  "fst (projr (cache tab_env_keyed tab_args double) 3 ex_state) = Inr 2
   \<and> objects (snd (projr (cache tab_env_keyed tab_args double) 3 ex_state)) 0 = 1
   \<and> function_caches (snd (projr (cache tab_env_keyed tab_args double) 3 ex_state)) ''double''
       = Some 1
   \<and> max_entries (tab_args\<lparr>hash_funcs := True\<rparr>) = max_entries tab_args
   \<and> ttl (tab_args\<lparr>hash_funcs := True\<rparr>) = ttl tab_args
   \<and> fst (projr (cache tab_env_keyed (tab_args\<lparr>hash_funcs := True\<rparr>) double) 3
            (snd (projr (cache tab_env_keyed tab_args double) 3 ex_state))) = Inr 4
   \<and> objects (snd (projr (cache tab_env_keyed (tab_args\<lparr>hash_funcs := True\<rparr>) double) 3
            (snd (projr (cache tab_env_keyed tab_args double) 3 ex_state)))) 0 = 2
   \<and> function_caches (snd (projr (cache tab_env_keyed (tab_args\<lparr>hash_funcs := True\<rparr>) double) 3
            (snd (projr (cache tab_env_keyed tab_args double) 3 ex_state)))) ''double+''
       = Some 3"
  by (simp add: cache_def model_defs tab_defs ex_state_def double_def)

text \<open>
  The witness: the table changes from none to one that overrides the hash of the returned
  object, and both keys stay as they were. The entry written under the old table is read
  under the new one: the same tier, no run of the body, and a warning, because the stored
  digest is not the one the new table gives.
\<close>

theorem tier_kept_when_only_policy_changes_witness:
  "hash_funcs (tab_args\<lparr>hash_funcs := True\<rparr>) \<noteq> hash_funcs tab_args
   \<and> func_key tab_env (hash_funcs (tab_args\<lparr>hash_funcs := True\<rparr>))
       = func_key tab_env (hash_funcs tab_args)
   \<and> function_caches ((snd (get_cache ''double'' PyNone PyNone ex_state))
                         \<lparr>objects := (\<lambda>r. 6)\<rparr>) ''double'' = Some 1
   \<and> fst (write_to_mem_cache tab_env 1 ''three'' 5 False False
            ((snd (get_cache ''double'' PyNone PyNone ex_state))\<lparr>objects := (\<lambda>r. 6)\<rparr>)) = Inr ()
   \<and> fst (get_cache ''double'' PyNone PyNone
            ((snd (write_to_mem_cache tab_env 1 ''three'' 5 False False
                     ((snd (get_cache ''double'' PyNone PyNone ex_state))
                        \<lparr>objects := (\<lambda>r. 6)\<rparr>)))\<lparr>clock := 7\<rparr>)) = Inr 1
   \<and> fst (wrapped_func tab_env (tab_args\<lparr>hash_funcs := True\<rparr>) ''double'' double 3
            ((snd (write_to_mem_cache tab_env 1 ''three'' 5 False False
                     ((snd (get_cache ''double'' PyNone PyNone ex_state))
                        \<lparr>objects := (\<lambda>r. 6)\<rparr>)))\<lparr>clock := 7\<rparr>)) = Inr 5
   \<and> warnings (snd (wrapped_func tab_env (tab_args\<lparr>hash_funcs := True\<rparr>) ''double'' double 3
            ((snd (write_to_mem_cache tab_env 1 ''three'' 5 False False
                     ((snd (get_cache ''double'' PyNone PyNone ex_state))
                        \<lparr>objects := (\<lambda>r. 6)\<rparr>)))\<lparr>clock := 7\<rparr>)))
       = [get_mutated_output_error_message]"
proof -
  let ?p = "tab_args"
  let ?p' = "tab_args\<lparr>hash_funcs := True\<rparr>"
  let ?s = "(snd (get_cache ''double'' PyNone PyNone ex_state))\<lparr>objects := (\<lambda>r. 6)\<rparr>"
  let ?s1 = "snd (write_to_mem_cache tab_env 1 ''three'' 5 False False ?s)"
  have dt: "hash_funcs ?p' \<noteq> hash_funcs ?p" by (simp add: tab_args_def)
  have fk: "func_key tab_env (hash_funcs ?p') = func_key tab_env (hash_funcs ?p)"
    by (simp add: tab_defs)
  have vk: "value_key tab_env (hash_funcs ?p') 3 = value_key tab_env (hash_funcs ?p) 3"
    by (simp add: tab_defs)
  have fkv: "func_key tab_env h = ''double''" "value_key tab_env h 3 = ''three''" for h
    by (simp_all add: tab_defs)
  have on: "client_caching ?s" by (simp add: model_defs ex_defs)
  have nih: "\<not> ignore_hash ?p'" by (simp add: tab_args_def)
  have reg1: "function_caches ?s ''double'' = Some 1" by (simp add: model_defs ex_defs)
  then have reg: "function_caches ?s (func_key tab_env (hash_funcs ?p)) = Some 1"
    by (simp add: fkv)
  have b1: "none_to_inf (max_entries ?p') = Numeric Infinity"
    and b2: "none_to_inf (ttl ?p') = Numeric Infinity"
    by (simp_all add: none_to_inf_def tab_args_def)
  have e1: "num_eq (cache_maxsize (tiers ?s 1)) Infinity"
    and e2: "num_eq (cache_ttl (tiers ?s 1)) Infinity"
    by (simp_all add: model_defs ex_defs)
  have pa: "allow_output_mutation ?p = False" "hash_funcs ?p = False"
           "allow_output_mutation ?p' = False" "hash_funcs ?p' = True"
           "max_entries ?p' = PyNone" "ttl ?p' = PyNone"
    by (simp_all add: tab_args_def)
  have w1: "fst (write_to_mem_cache tab_env 1 ''three'' 5 False False ?s) = Inr ()"
    by (simp add: model_defs ex_defs tab_defs)
  then have "write_to_mem_cache tab_env 1 ''three'' 5 False False ?s = (Inr (), ?s1)"
    by (simp add: prod_eq_iff)
  then have w: "write_to_mem_cache tab_env 1 (value_key tab_env (hash_funcs ?p) 3) 5
                  (allow_output_mutation ?p) (hash_funcs ?p) ?s = (Inr (), ?s1)"
    by (simp add: fkv pa)
  have live: "\<not> expired (num_add (Finite (clock ?s)) (cache_ttl (tiers ?s 1))) 7"
    by (simp add: model_defs ex_defs)
  have gh: "get_hash tab_env True (objects ?s 5) \<noteq> get_hash tab_env False (objects ?s 5)"
    by (simp add: tab_defs)
  have ws: "warnings ?s1 = []" by (simp add: model_defs ex_defs tab_defs)
  note r = tier_kept_when_only_policy_changes
             [where func = double, OF on nih reg b1 b2 e1 e2 fk vk w live]
  from r have a: "fst (get_cache ''double'' PyNone PyNone (?s1\<lparr>clock := 7\<rparr>)) = Inr 1"
    by (simp add: fkv pa)
  from r gh ws have b: "wrapped_func tab_env ?p' ''double'' double 3 (?s1\<lparr>clock := 7\<rparr>)
      = (Inr 5, ?s1\<lparr>clock := 7, warnings := [get_mutated_output_error_message]\<rparr>)"
    by (simp add: fkv pa)
  from dt fk reg1 w1 a b show ?thesis by simp
qed

end
